theory Spec2Isabelle
  imports Complex_Main "HOL-Library.Word" "HOL-Library.AList"
begin

section \<open>Numbers of the Go program\<close>

text \<open>
  The counters of the program are \<open>uint64\<close> and are modelled as 64-bit words, which wrap
  around as Go's do. Go's \<open>int\<close> fields (key size, exponent, version) hold small values and
  no arithmetic is done on them; they are mathematical integers here.
\<close>

type_synonym uint64 = "64 word"

text \<open>The length in bits of a natural number (0 for 0).\<close>

fun bitlen_nat :: "nat \<Rightarrow> nat" where
  "bitlen_nat n = (if n = 0 then 0 else Suc (bitlen_nat (n div 2)))"

declare bitlen_nat.simps [simp del]

subsection \<open>Single precision floats\<close>

text \<open>
  A \<open>float32\<close> is an IEEE 754 binary32 value: a number, one of the two infinities, or NaN.
  A number is held as the rational it denotes, \<open>m * 2^k\<close> with \<open>m\<close> below \<open>2^24\<close> in
  absolute value and \<open>k\<close> from -149 to 104. Every operation computes the exact result and
  rounds it to the nearest such number, ties to the even \<open>m\<close>; a result that rounds to
  \<open>2^128\<close> or beyond is an infinity. The sign of zero is not modelled: the program never
  divides by a negative zero (its divisors are converted unsigned counts and lengths), and
  nothing else tells the two zeros apart.
\<close>

datatype float32 = Fin rat | PInf | NInf | NaN

definition pow2 :: "int \<Rightarrow> rat" where
  "pow2 e = (if 0 \<le> e then 2 ^ nat e else 1 / 2 ^ nat (- e))"

text \<open>
  For a positive \<open>a\<close>, the exponent \<open>e\<close> with \<open>2^e \<le> a < 2^(e+1)\<close>: at least 1, it is one
  less than the bit length of the integer part of \<open>a\<close>; below 1, it is read off its inverse.
\<close>

definition ilog2 :: "rat \<Rightarrow> int" where
  "ilog2 a =
     (if 1 \<le> a then int (bitlen_nat (nat \<lfloor>a\<rfloor>)) - 1
      else - int (bitlen_nat (nat (\<lceil>1 / a\<rceil> - 1))))"

text \<open>The nearest integer, the even one of two that are equally near.\<close>

definition round_even :: "rat \<Rightarrow> int" where
  "round_even x =
     (let f = \<lfloor>x\<rfloor>; d = x - of_int f
      in if d < 1 / 2 then f
         else if 1 / 2 < d then f + 1
         else if even f then f else f + 1)"

text \<open>
  Rounding to binary32. The numbers from \<open>2^e\<close> to \<open>2^(e+1)\<close> are spaced \<open>2^(e-23)\<close>
  apart; below \<open>2^(-126)\<close> (the subnormal numbers) the spacing stays \<open>2^(-149)\<close>.
\<close>

definition round32 :: "rat \<Rightarrow> float32" where
  "round32 x =
     (if x = 0 then Fin 0
      else let a = \<bar>x\<bar>;
               e = max (ilog2 a) (- 126);
               ulp = pow2 (e - 23);
               m = round_even (a / ulp)
           in if pow2 128 \<le> of_int m * ulp then (if 0 < x then PInf else NInf)
              else Fin (sgn x * (of_int m * ulp)))"

fun fneg :: "float32 \<Rightarrow> float32" where
  "fneg (Fin a) = Fin (- a)"
| "fneg PInf = NInf"
| "fneg NInf = PInf"
| "fneg NaN = NaN"

fun fadd :: "float32 \<Rightarrow> float32 \<Rightarrow> float32" where
  "fadd NaN y = NaN"
| "fadd x NaN = NaN"
| "fadd (Fin a) (Fin b) = round32 (a + b)"
| "fadd PInf NInf = NaN"
| "fadd NInf PInf = NaN"
| "fadd PInf y = PInf"
| "fadd NInf y = NInf"
| "fadd (Fin a) PInf = PInf"
| "fadd (Fin a) NInf = NInf"

text \<open>\<open>x - y\<close> is \<open>x + (-y)\<close>, with the one rounding of the sum.\<close>

definition fsub :: "float32 \<Rightarrow> float32 \<Rightarrow> float32" where
  "fsub x y = fadd x (fneg y)"

text \<open>Division; a zero divisor is the positive zero.\<close>

fun fdiv :: "float32 \<Rightarrow> float32 \<Rightarrow> float32" where
  "fdiv NaN y = NaN"
| "fdiv x NaN = NaN"
| "fdiv (Fin a) (Fin b) =
     (if b = 0 then (if a = 0 then NaN else if 0 < a then PInf else NInf)
      else round32 (a / b))"
| "fdiv (Fin a) y = Fin 0"
| "fdiv PInf (Fin b) = (if 0 \<le> b then PInf else NInf)"
| "fdiv NInf (Fin b) = (if 0 \<le> b then NInf else PInf)"
| "fdiv x y = NaN"

text \<open>\<open>x > y\<close> on floats: false whenever one side is NaN.\<close>

fun fgt :: "float32 \<Rightarrow> float32 \<Rightarrow> bool" where
  "fgt NaN y = False"
| "fgt x NaN = False"
| "fgt (Fin a) (Fin b) = (b < a)"
| "fgt PInf PInf = False"
| "fgt PInf y = True"
| "fgt NInf y = False"
| "fgt (Fin a) PInf = False"
| "fgt (Fin a) NInf = True"

text \<open>
  The conversions \<open>float32(n)\<close> of a \<open>uint64\<close> and of a length; they round as well
  (\<open>float32(16777217)\<close> is 16777216).
\<close>

definition float32_of_uint64 :: "uint64 \<Rightarrow> float32" where
  "float32_of_uint64 n = round32 (of_nat (unat n))"

definition float32_of_len :: "nat \<Rightarrow> float32" where
  "float32_of_len n = round32 (of_nat n)"

text \<open>A float lies in the interval [0,1]: it is a number, and between the bounds.\<close>

fun in_unit :: "float32 \<Rightarrow> bool" where
  "in_unit (Fin a) = (0 \<le> a \<and> a \<le> 1)"
| "in_unit x = False"

section \<open>Go maps\<close>

text \<open>
  A Go map is modelled by an association list read with \<open>map_of\<close> and written with
  \<open>AList.update\<close>. A \<open>range\<close> loop visits every key once, with the value the map holds for
  it: the list \<open>AList.clearjunk m\<close>. Go leaves the order of the visit open; the loops below
  visit in list order. The loop of \<open>Update\<close> treats the keys independently of one another,
  and so does the loop of \<open>Finish\<close> for the scores of the entries; the two sums of
  \<open>Finish\<close> are added up in the order of the visit, and a sum of floats can depend on
  that order in its last bit.
\<close>

definition range_map :: "('k \<times> 'v) list \<Rightarrow> ('k \<times> 'v) list" where
  "range_map m = AList.clearjunk m"

section \<open>Data model\<close>

text \<open>The rule names (the constants of the source).\<close>

definition VALID_PERIOD_TOO_LONG :: string where
  "VALID_PERIOD_TOO_LONG = ''ValidPeriodTooLong''"
definition DEPRECATED_SIGNATURE_ALGORITHM :: string where
  "DEPRECATED_SIGNATURE_ALGORITHM = ''DeprecatedSignatureAlgorithm''"
definition DEPRECATED_VERSION :: string where
  "DEPRECATED_VERSION = ''DeprecatedVersion''"
definition MISSING_CN_IN_SAN :: string where
  "MISSING_CN_IN_SAN = ''MissingCNInSan''"
definition KEY_TOO_SHORT :: string where
  "KEY_TOO_SHORT = ''KeyTooShort''"
definition EXP_TOO_SMALL :: string where
  "EXP_TOO_SMALL = ''ExpTooSmall''"

text \<open>
  \<open>CertSummary\<close>. The fields \<open>Sha256Fingerprint\<close>, \<open>NotBefore\<close>, \<open>NotAfter\<close> and
  \<open>IpAddresses\<close> are renderings made by library routines (SHA-256 and base64, date
  formatting, address printing) of values the certificate carries; nothing in the program
  reads them back, and they are left out of the record.
\<close>

record CertSummary =
  CN :: string
  Issuer :: string
  KeySize :: int
  Exp :: int
  SignatureAlgorithm :: int
  Version :: int
  IsCA :: bool
  DnsNames :: "string list"
  Violations :: "(string \<times> bool) list"
  MaxReputation :: float32
  IssuerInMozillaDB :: bool
  Timestamp :: uint64

record IssuerReputationScore =
  NormalizedScore :: float32
  RawScore :: float32

text \<open>
  \<open>IssuerReputation\<close>. Its fields \<open>Issuer\<close>, \<open>IssuerInMozillaDB\<close>, \<open>IsCA\<close>,
  \<open>NormalizedScore\<close> and \<open>RawScore\<close> share their names with fields of the two records
  above; below, such a field is always written with its record's name in front.
\<close>

record IssuerReputation =
  Issuer :: string
  IssuerInMozillaDB :: bool
  Scores :: "(string \<times> IssuerReputationScore) list"
  IsCA :: uint64
  NormalizedScore :: float32
  RawScore :: float32
  NormalizedCount :: uint64
  RawCount :: uint64
  BeginTime :: uint64
  done_flag :: bool

text \<open>\<open>done_flag\<close> is the field \<open>done\<close> of the source.\<close>

section \<open>The reputation aggregator\<close>

definition IssuerReputationScore_Update ::
  "IssuerReputationScore \<Rightarrow> float32 \<Rightarrow> IssuerReputationScore" where
  "IssuerReputationScore_Update score reputation =
     score\<lparr>IssuerReputationScore.NormalizedScore :=
               fadd (IssuerReputationScore.NormalizedScore score) reputation,
           IssuerReputationScore.RawScore :=
               fadd (IssuerReputationScore.RawScore score) (Fin 1)\<rparr>"

definition IssuerReputationScore_Finish ::
  "IssuerReputationScore \<Rightarrow> uint64 \<Rightarrow> uint64 \<Rightarrow> IssuerReputationScore" where
  "IssuerReputationScore_Finish score normalizedCount rawCount =
     \<lparr>IssuerReputationScore.NormalizedScore =
        fsub (Fin 1) (fdiv (IssuerReputationScore.NormalizedScore score)
                           (float32_of_uint64 normalizedCount)),
      IssuerReputationScore.RawScore =
        fsub (Fin 1) (fdiv (IssuerReputationScore.RawScore score)
                           (float32_of_uint64 rawCount))\<rparr>"

text \<open>\<open>new(IssuerReputationScore)\<close>: both sums zero.\<close>

definition new_IssuerReputationScore :: IssuerReputationScore where
  "new_IssuerReputationScore =
     \<lparr>IssuerReputationScore.NormalizedScore = Fin 0, IssuerReputationScore.RawScore = Fin 0\<rparr>"

text \<open>
  One turn of the loop of \<open>IssuerReputation.Update\<close> over \<open>summary.Violations\<close>: the entry
  of the rule is created when the map has none, whatever the flag is, and only then the flag
  is looked at. (After the creation the entry is there; the \<open>None\<close> branch of the second
  lookup is never taken.)
\<close>

definition Update_rule ::
  "float32 \<Rightarrow> string \<times> bool \<Rightarrow> (string \<times> IssuerReputationScore) list
     \<Rightarrow> (string \<times> IssuerReputationScore) list" where
  "Update_rule reputation nv scores =
     (let name = fst nv; val = snd nv;
          scores1 = (if map_of scores name = None
                     then AList.update name new_IssuerReputationScore scores
                     else scores)
      in if val
         then (case map_of scores1 name of
                 None \<Rightarrow> scores1
               | Some score \<Rightarrow>
                   AList.update name (IssuerReputationScore_Update score reputation) scores1)
         else scores1)"

definition IssuerReputation_Update :: "IssuerReputation \<Rightarrow> CertSummary \<Rightarrow> IssuerReputation" where
  "IssuerReputation_Update issuer summary =
     (let known = (MaxReputation summary \<noteq> Fin (- 1));
          reputation = (if known then MaxReputation summary else Fin 0)
      in issuer\<lparr>
           RawCount := RawCount issuer + 1,
           IssuerReputation.IssuerInMozillaDB := CertSummary.IssuerInMozillaDB summary,
           NormalizedCount := (if known then NormalizedCount issuer + 1
                               else NormalizedCount issuer),
           Scores := foldl (\<lambda>scores nv. Update_rule reputation nv scores)
                       (Scores issuer) (range_map (Violations summary)),
           IssuerReputation.IsCA := (if CertSummary.IsCA summary
                                     then IssuerReputation.IsCA issuer + 1
                                     else IssuerReputation.IsCA issuer)\<rparr>)"

text \<open>
  The loop of \<open>IssuerReputation.Finish\<close>: every score of the map is finished in place, and
  its two finished values are added to the running sums.
\<close>

fun Finish_loop ::
  "uint64 \<Rightarrow> uint64 \<Rightarrow> (string \<times> IssuerReputationScore) list \<Rightarrow> float32 \<times> float32
     \<Rightarrow> (string \<times> IssuerReputationScore) list \<times> float32 \<times> float32" where
  "Finish_loop nc rc [] (normalizedSum, rawSum) = ([], normalizedSum, rawSum)"
| "Finish_loop nc rc ((name, score) # rest) (normalizedSum, rawSum) =
     (let score' = IssuerReputationScore_Finish score nc rc;
          (rest', totals) =
             Finish_loop nc rc rest
               (fadd normalizedSum (IssuerReputationScore.NormalizedScore score'),
                fadd rawSum (IssuerReputationScore.RawScore score'))
      in ((name, score') # rest', totals))"

definition IssuerReputation_Finish :: "IssuerReputation \<Rightarrow> IssuerReputation" where
  "IssuerReputation_Finish issuer =
     (let (scores', normalizedSum, rawSum) =
            Finish_loop (NormalizedCount issuer) (RawCount issuer)
              (range_map (Scores issuer)) (Fin 0, Fin 0)
      in issuer\<lparr>
           Scores := scores',
           IssuerReputation.NormalizedScore :=
             fdiv normalizedSum (float32_of_len (length scores')),
           IssuerReputation.RawScore :=
             fdiv rawSum (float32_of_len (length scores'))\<rparr>)"

section \<open>Calendar time\<close>

text \<open>
  Go's \<open>time\<close> package is not part of the program; what the program uses of it is modelled
  here from the package's documented meaning: the proleptic Gregorian calendar, a day of
  86400 seconds. A \<open>Time\<close> is the number of seconds since January 1, 1970 UTC (the
  certificate times come from ASN.1 and carry whole seconds).
\<close>

type_synonym Time = int

definition isLeap :: "int \<Rightarrow> bool" where
  "isLeap year = (year mod 4 = 0 \<and> (year mod 100 \<noteq> 0 \<or> year mod 400 = 0))"

text \<open>Days from January 1, 1970 to January 1 of the year (477 leap days precede 1970).\<close>

definition daysBeforeYear :: "int \<Rightarrow> int" where
  "daysBeforeYear year =
     365 * (year - 1970)
       + ((year - 1) div 4 - (year - 1) div 100 + (year - 1) div 400) - 477"

text \<open>
  Days of the year before the first of the month. The function is applied to months from 1
  to 12 only: \<open>Date_UTC\<close> normalises the month first, and \<open>monthOfYday\<close> tries 2 to 12.
\<close>

definition daysBefore :: "int \<Rightarrow> int \<Rightarrow> int" where
  "daysBefore year month =
     [0, 31, 59, 90, 120, 151, 181, 212, 243, 273, 304, 334] ! nat (month - 1)
       + (if isLeap year \<and> 2 < month then 1 else 0)"

text \<open>
  \<open>time.Date(year, month, day, hour, min, sec, 0, time.UTC).Unix()\<close>. The month is
  normalised into 1 to 12 with a carry into the year; day, hour, minute and second may lie
  outside their usual ranges and carry over likewise.
\<close>

definition Date_UTC :: "int \<Rightarrow> int \<Rightarrow> int \<Rightarrow> int \<Rightarrow> int \<Rightarrow> int \<Rightarrow> Time" where
  "Date_UTC year month day hour minute sec =
     (let y = year + (month - 1) div 12; m = (month - 1) mod 12 + 1
      in (daysBeforeYear y + daysBefore y m + (day - 1)) * 86400
           + hour * 3600 + minute * 60 + sec)"

text \<open>
  The year a day (counted from January 1, 1970) falls in: an estimate by the mean length of
  a year, corrected by at most one.
\<close>

definition yearOfDay :: "int \<Rightarrow> int" where
  "yearOfDay n =
     (let y = 1970 + (400 * n) div 146097
      in if n < daysBeforeYear y then y - 1
         else if daysBeforeYear (y + 1) \<le> n then y + 1
         else y)"

text \<open>The month a day of the year (counted from 0) falls in: the last one that has begun.\<close>

definition monthOfYday :: "int \<Rightarrow> int \<Rightarrow> int" where
  "monthOfYday year yday =
     (case find (\<lambda>m. daysBefore year m \<le> yday) [12, 11, 10, 9, 8, 7, 6, 5, 4, 3, 2] of
        Some m \<Rightarrow> m
      | None \<Rightarrow> 1)"

text \<open>\<open>t.Date()\<close> and \<open>t.Clock()\<close> of a time shown with a zone offset of zero.\<close>

definition Time_Date :: "Time \<Rightarrow> int \<times> int \<times> int" where
  "Time_Date t =
     (let n = t div 86400; year = yearOfDay n; yday = n - daysBeforeYear year;
          month = monthOfYday year yday
      in (year, month, yday - daysBefore year month + 1))"

definition Time_Clock :: "Time \<Rightarrow> int \<times> int \<times> int" where
  "Time_Clock t =
     (let s = t mod 86400 in (s div 3600, (s mod 3600) div 60, s mod 60))"

text \<open>\<open>t.AddDate(years, months, days)\<close> for a time in UTC.\<close>

definition AddDate :: "Time \<Rightarrow> int \<Rightarrow> int \<Rightarrow> int \<Rightarrow> Time" where
  "AddDate t years months days =
     (case Time_Date t of (year, month, day) \<Rightarrow>
      case Time_Clock t of (hour, minute, sec) \<Rightarrow>
        Date_UTC (year + years) (month + months) (day + days) hour minute sec)"

text \<open>Go's integer division, which truncates towards zero.\<close>

definition go_div :: "int \<Rightarrow> int \<Rightarrow> int" where
  "go_div a b = sgn a * sgn b * (\<bar>a\<bar> div \<bar>b\<bar>)"

text \<open>
  \<open>TruncateMonth\<close>. \<open>time.Unix\<close> returns a time in the local zone of the process, so
  \<open>d.Year()\<close> and \<open>d.Month()\<close> are read on the local clock; the zone is the parameter
  \<open>zone\<close>, which gives the offset from UTC, in seconds, in force at an instant. The result
  is built with \<open>time.UTC\<close>. \<open>int64(t)\<close> reads the word as two's complement, and the
  final \<open>uint64(...) * 1000\<close> wraps.
\<close>

definition TruncateMonth :: "(Time \<Rightarrow> int) \<Rightarrow> uint64 \<Rightarrow> uint64" where
  "TruncateMonth zone t =
     (let d = go_div (sint t) 1000 in
      case Time_Date (d + zone d) of (year, month, day) \<Rightarrow>
        (word_of_int (Date_UTC year month 1 0 0 0) :: uint64) * 1000)"

text \<open>The zone of a process whose local time is UTC.\<close>

definition UTC :: "Time \<Rightarrow> int" where
  "UTC d = 0"

section \<open>Distinguished names\<close>

text \<open>\<open>pkix.Name\<close>; an attribute of \<open>Names\<close> is an object identifier and a value.\<close>

record Name =
  Country :: "string list"
  Organization :: "string list"
  OrganizationalUnit :: "string list"
  Locality :: "string list"
  Province :: "string list"
  StreetAddress :: "string list"
  PostalCode :: "string list"
  SerialNumber :: string
  CommonName :: string
  Names :: "(nat list \<times> string) list"

text \<open>The buffer is passed in and returned.\<close>

fun maybeAppendFieldToBuffer :: "string \<Rightarrow> string list \<Rightarrow> string \<Rightarrow> string" where
  "maybeAppendFieldToBuffer buffer [] pre = buffer"
| "maybeAppendFieldToBuffer buffer (f # fs) pre =
     (if 0 < length f
      then (if 0 < length buffer then buffer @ '', '' else buffer) @ pre @ f
      else buffer)"

definition DistinguishedNameToString :: "Name \<Rightarrow> string" where
  "DistinguishedNameToString n =
     (let buffer = [];
          buffer = maybeAppendFieldToBuffer buffer (Organization n) ''O='';
          buffer = maybeAppendFieldToBuffer buffer (OrganizationalUnit n) ''OU='';
          buffer = maybeAppendFieldToBuffer buffer [CommonName n] ''CN=''
      in buffer)"

definition NewIssuerReputation :: "(Time \<Rightarrow> int) \<Rightarrow> Name \<Rightarrow> uint64 \<Rightarrow> IssuerReputation" where
  "NewIssuerReputation zone issuer timestamp =
     \<lparr>IssuerReputation.Issuer = DistinguishedNameToString issuer,
      IssuerReputation.IssuerInMozillaDB = False,
      Scores = [],
      IssuerReputation.IsCA = 0,
      IssuerReputation.NormalizedScore = Fin 0,
      IssuerReputation.RawScore = Fin 0,
      NormalizedCount = 0,
      RawCount = 0,
      BeginTime = TruncateMonth zone timestamp,
      done_flag = False\<rparr>"

section \<open>Certificates\<close>

text \<open>
  \<open>x509.Certificate\<close>, with the fields the program reads, and its public key: the type
  assertion \<open>cert.PublicKey.(*rsa.PublicKey)\<close> succeeds on \<open>RSA_PublicKey N E\<close> alone. An
  address is its bytes. The times of a parsed certificate are in UTC.
\<close>

type_synonym IP = "8 word list"

datatype PublicKey = RSA_PublicKey int int | Other_PublicKey

record Certificate =
  Subject :: Name
  Issuer :: Name
  NotBefore :: Time
  NotAfter :: Time
  IsCA :: bool
  BasicConstraintsValid :: bool
  Version :: int
  SignatureAlgorithm :: int
  PublicKey :: PublicKey
  DNSNames :: "string list"
  IPAddresses :: "IP list"

text \<open>The values of the three SHA-1 signature algorithms in \<open>crypto/x509\<close>.\<close>

definition SHA1WithRSA :: int where "SHA1WithRSA = 3"
definition DSAWithSHA1 :: int where "DSAWithSHA1 = 7"
definition ECDSAWithSHA1 :: int where "ECDSAWithSHA1 = 9"

text \<open>\<open>N.BitLen()\<close>: the length in bits of the absolute value of \<open>N\<close>.\<close>

definition BitLen :: "int \<Rightarrow> int" where
  "BitLen N = int (bitlen_nat (nat \<bar>N\<bar>))"

text \<open>
  The library routines the evaluator calls on names and addresses are parameters of the
  model: \<open>idna.ToASCII\<close> (\<open>None\<close> when it returns an error), \<open>net.ParseIP\<close> (\<open>None\<close> for
  \<open>nil\<close>), \<open>IP.Equal\<close> and \<open>strings.EqualFold\<close>. The ranker is \<open>None\<close> for \<open>nil\<close>, and
  otherwise the first result of its \<open>GetReputation\<close>.
\<close>

record Library =
  ToASCII :: "string \<Rightarrow> string option"
  ParseIP :: "string \<Rightarrow> IP option"
  IP_Equal :: "IP \<Rightarrow> IP \<Rightarrow> bool"
  EqualFold :: "string \<Rightarrow> string \<Rightarrow> bool"

text \<open>Reading a \<open>map[string]bool\<close>: a missing key reads as \<open>false\<close>.\<close>

definition lookup_bool :: "(string \<times> bool) list \<Rightarrow> string \<Rightarrow> bool" where
  "lookup_bool m k = (case map_of m k of None \<Rightarrow> False | Some b \<Rightarrow> b)"

fun containsIssuerInRootList :: "Certificate list \<Rightarrow> (string \<times> bool) list \<Rightarrow> bool" where
  "containsIssuerInRootList [] rootCAMap = False"
| "containsIssuerInRootList (cert # certChain) rootCAMap =
     (if lookup_bool rootCAMap (DistinguishedNameToString (Certificate.Issuer cert)) then True
      else containsIssuerInRootList certChain rootCAMap)"

section \<open>The compliance evaluator\<close>

text \<open>\<open>CalculateCertSummary\<close>, block by block. First the map literal.\<close>

definition initial_Violations :: "Certificate \<Rightarrow> (string \<times> bool) list" where
  "initial_Violations cert =
     [(VALID_PERIOD_TOO_LONG, False),
      (DEPRECATED_SIGNATURE_ALGORITHM, False),
      (DEPRECATED_VERSION, Certificate.Version cert \<noteq> 3),
      (KEY_TOO_SHORT, False),
      (EXP_TOO_SMALL, False),
      (MISSING_CN_IN_SAN, False)]"

text \<open>BR 9.4.1: the validity period.\<close>

definition check_ValidPeriod :: "Certificate \<Rightarrow> (string \<times> bool) list \<Rightarrow> (string \<times> bool) list" where
  "check_ValidPeriod cert violations =
     (if AddDate (NotBefore cert) 5 0 7 < NotAfter cert \<and>
         (\<not> BasicConstraintsValid cert \<or>
          (BasicConstraintsValid cert \<and> \<not> Certificate.IsCA cert))
      then AList.update VALID_PERIOD_TOO_LONG True violations
      else violations)"

definition check_SignatureAlgorithm ::
  "Certificate \<Rightarrow> (string \<times> bool) list \<Rightarrow> (string \<times> bool) list" where
  "check_SignatureAlgorithm cert violations =
     (if Certificate.SignatureAlgorithm cert = SHA1WithRSA \<or>
         Certificate.SignatureAlgorithm cert = DSAWithSHA1 \<or>
         Certificate.SignatureAlgorithm cert = ECDSAWithSHA1
      then AList.update DEPRECATED_SIGNATURE_ALGORITHM True violations
      else violations)"

text \<open>The public key: the key size, the exponent and the two rules on them.\<close>

definition check_PublicKey ::
  "Certificate \<Rightarrow> (string \<times> bool) list \<Rightarrow> int \<times> int \<times> (string \<times> bool) list" where
  "check_PublicKey cert violations =
     (case PublicKey cert of
        RSA_PublicKey N E \<Rightarrow>
          (let keySize = BitLen N;
               violations = (if keySize \<le> 1024
                             then AList.update KEY_TOO_SHORT True violations
                             else violations);
               violations = (if E \<le> 3
                             then AList.update EXP_TOO_SMALL True violations
                             else violations)
           in (keySize, E, violations))
      | Other_PublicKey \<Rightarrow> (- 1, - 1, violations))"

text \<open>The popularity score; without a ranker it remains the zero of a new summary.\<close>

definition lookup_MaxReputation :: "(string \<Rightarrow> float32) option \<Rightarrow> Certificate \<Rightarrow> float32" where
  "lookup_MaxReputation ranker cert =
     (case ranker of
        None \<Rightarrow> Fin 0
      | Some GetReputation \<Rightarrow>
          foldl (\<lambda>maxReputation host.
                   let reputation = GetReputation host
                   in if fgt reputation maxReputation then reputation else maxReputation)
            (GetReputation (CommonName (Subject cert))) (DNSNames cert))"

text \<open>
  BR 9.2.2, reached with a common name that is not empty and has an ASCII form: the rule is
  set, and cleared by every matching alternative name. (The loop over the DNS names also
  tests \<open>err == nil\<close>, which holds there: the function has returned otherwise.)
\<close>

definition check_MissingCN ::
  "Library \<Rightarrow> Certificate \<Rightarrow> string \<Rightarrow> (string \<times> bool) list \<Rightarrow> (string \<times> bool) list" where
  "check_MissingCN lib cert cnAsPunycode violations =
     (let violations = AList.update MISSING_CN_IN_SAN True violations
      in case ParseIP lib (CommonName (Subject cert)) of
           Some cnAsIP \<Rightarrow>
             foldl (\<lambda>v ip. if IP_Equal lib cnAsIP ip
                            then AList.update MISSING_CN_IN_SAN False v else v)
               violations (IPAddresses cert)
         | None \<Rightarrow>
             foldl (\<lambda>v san. if EqualFold lib san cnAsPunycode
                             then AList.update MISSING_CN_IN_SAN False v else v)
               violations (DNSNames cert))"

text \<open>
  The function returns a summary and an error that is always \<open>nil\<close>; the model returns the
  summary. It has three ways out: an empty common name, a common name that
  \<open>idna.ToASCII\<close> rejects, and the end.
\<close>

definition CalculateCertSummary ::
  "Library \<Rightarrow> Certificate \<Rightarrow> uint64 \<Rightarrow> (string \<Rightarrow> float32) option \<Rightarrow> Certificate list
     \<Rightarrow> (string \<times> bool) list \<Rightarrow> CertSummary" where
  "CalculateCertSummary lib cert timestamp ranker certChain rootCAMap =
     (let violations = initial_Violations cert;
          violations = check_ValidPeriod cert violations;
          violations = check_SignatureAlgorithm cert violations;
          (keySize, exponent, violations) = check_PublicKey cert violations;
          summary =
            \<lparr>CN = CommonName (Subject cert),
             CertSummary.Issuer = DistinguishedNameToString (Certificate.Issuer cert),
             KeySize = keySize,
             Exp = exponent,
             CertSummary.SignatureAlgorithm = Certificate.SignatureAlgorithm cert,
             CertSummary.Version = Certificate.Version cert,
             CertSummary.IsCA = Certificate.IsCA cert,
             DnsNames = DNSNames cert,
             Violations = violations,
             MaxReputation = lookup_MaxReputation ranker cert,
             CertSummary.IssuerInMozillaDB = containsIssuerInRootList certChain rootCAMap,
             Timestamp = timestamp\<rparr>
      in if length (CommonName (Subject cert)) = 0 then summary
         else (case ToASCII lib (CommonName (Subject cert)) of
                 None \<Rightarrow> summary
               | Some cnAsPunycode \<Rightarrow>
                   summary\<lparr>Violations :=
                             check_MissingCN lib cert cnAsPunycode violations\<rparr>))"

section \<open>The fixtures of the repository's tests\<close>

text \<open>
  The certificate of \<open>TestCertSummary\<close> (\<open>sunlight_test.go\<close>), as the X.509 parser
  delivers it: subject and issuer \<open>O=Acme Co, CN=test.example.com\<close>, valid from
  00:16:40 on January 1, 1970 to 03:46:40 on January 2, 1970, a certificate authority, version 3,
  signed with SHA1WithRSA, a 512-bit RSA key with exponent 65537, one DNS name.
\<close>

definition Acme_Co :: Name where
  "Acme_Co =
     \<lparr>Country = [], Organization = [''Acme Co''], OrganizationalUnit = [], Locality = [],
      Province = [], StreetAddress = [], PostalCode = [], SerialNumber = [],
      CommonName = ''test.example.com'', Names = []\<rparr>"

definition test_modulus :: int where
  "test_modulus = 9353930466774385905609975137998169297361893554149986716853295022578535724979677252958524466350471210367835187480748268864277464700638583474144061408845077"

definition test_cert :: Certificate where
  "test_cert =
     \<lparr>Subject = Acme_Co, Certificate.Issuer = Acme_Co,
      NotBefore = 1000, NotAfter = 100000,
      Certificate.IsCA = True, BasicConstraintsValid = True,
      Certificate.Version = 3, Certificate.SignatureAlgorithm = 3,
      PublicKey = RSA_PublicKey test_modulus 65537,
      DNSNames = [''test.example.com''], IPAddresses = []\<rparr>"

text \<open>
  Two libraries for the fixtures. Both know no address literal and compare without folding;
  the first returns every name as its own ASCII form, which is what the library does on
  \<open>test.example.com\<close>; the second rejects every name.
\<close>

definition ascii_lib :: Library where
  "ascii_lib =
     \<lparr>ToASCII = (\<lambda>s. Some s), ParseIP = (\<lambda>s. None), IP_Equal = (\<lambda>a b. a = b),
      EqualFold = (\<lambda>a b. a = b)\<rparr>"

definition rejecting_lib :: Library where
  "rejecting_lib =
     \<lparr>ToASCII = (\<lambda>s. None), ParseIP = (\<lambda>s. None), IP_Equal = (\<lambda>a b. a = b),
      EqualFold = (\<lambda>a b. a = b)\<rparr>"

text \<open>
  The issuer and the two summaries of \<open>TestIssuerReputation\<close>; the fields the test leaves
  out have Go's zero values. The score 0.1 of the test is the \<open>float32\<close> nearest to one
  tenth, \<open>13421773 / 2^27\<close>.
\<close>

definition tenth :: float32 where
  "tenth = Fin (13421773 / 134217728)"

definition Honest_Al :: Name where
  "Honest_Al =
     \<lparr>Country = [], Organization = [], OrganizationalUnit = [], Locality = [],
      Province = [], StreetAddress = [], PostalCode = [], SerialNumber = [],
      CommonName = ''Honest Al'', Names = []\<rparr>"

definition test_Violations :: "(string \<times> bool) list" where
  "test_Violations =
     [(VALID_PERIOD_TOO_LONG, True),
      (DEPRECATED_SIGNATURE_ALGORITHM, False),
      (DEPRECATED_VERSION, False),
      (KEY_TOO_SHORT, False),
      (EXP_TOO_SMALL, False),
      (MISSING_CN_IN_SAN, True)]"

definition test_summary :: CertSummary where
  "test_summary =
     \<lparr>CN = ''example.com'', CertSummary.Issuer = ''CN=Honest Al'', KeySize = 0, Exp = 0,
      CertSummary.SignatureAlgorithm = 0, CertSummary.Version = 0, CertSummary.IsCA = False,
      DnsNames = [], Violations = test_Violations, MaxReputation = tenth,
      CertSummary.IssuerInMozillaDB = False, Timestamp = 1414800000\<rparr>"

definition unknown_summary :: CertSummary where
  "unknown_summary =
     \<lparr>CN = ''unknown.example.com'', CertSummary.Issuer = ''CN=Honest Al'', KeySize = 0, Exp = 0,
      CertSummary.SignatureAlgorithm = 0, CertSummary.Version = 0, CertSummary.IsCA = False,
      DnsNames = [], Violations = test_Violations, MaxReputation = Fin (- 1),
      CertSummary.IssuerInMozillaDB = False, Timestamp = 1414800000\<rparr>"

text \<open>The bucket of the test before its \<open>Finish\<close>: a new one, updated with both summaries.\<close>

definition test_bucket :: IssuerReputation where
  "test_bucket =
     foldl IssuerReputation_Update (NewIssuerReputation UTC Honest_Al 1414800000)
       [test_summary, unknown_summary]"

text \<open>A bucket that has seen the unranked summary only.\<close>

definition unranked_bucket :: IssuerReputation where
  "unranked_bucket =
     foldl IssuerReputation_Update (NewIssuerReputation UTC Honest_Al 1414800000)
       [unknown_summary]"

text \<open>A zone five hours west of Greenwich all year.\<close>

definition UTC_minus_5 :: "Time \<Rightarrow> int" where
  "UTC_minus_5 d = - 18000"

section \<open>Notions used in the statements\<close>

text \<open>
  The running sums a bucket holds for a rule: those of the rule's entry, and zero when the
  map has no entry for it (an entry is created with zero sums).
\<close>

definition score_of :: "(string \<times> IssuerReputationScore) list \<Rightarrow> string \<Rightarrow> IssuerReputationScore" where
  "score_of scores name =
     (case map_of scores name of None \<Rightarrow> new_IssuerReputationScore | Some score \<Rightarrow> score)"

text \<open>A map has an entry for a key.\<close>

definition has_entry :: "('k \<times> 'v) list \<Rightarrow> 'k \<Rightarrow> bool" where
  "has_entry m k = (map_of m k \<noteq> None)"

text \<open>The weight a summary contributes: its popularity score, and 0 for the sentinel -1.\<close>

definition weight :: "CertSummary \<Rightarrow> float32" where
  "weight summary =
     (if MaxReputation summary \<noteq> Fin (- 1) then MaxReputation summary else Fin 0)"

text \<open>The mean of a list of floats, summed from the left as the loop of \<open>Finish\<close> does.\<close>

definition mean :: "float32 list \<Rightarrow> float32" where
  "mean xs = fdiv (foldl fadd (Fin 0) xs) (float32_of_len (length xs))"

text \<open>
  The bit length of a binary numeral, digit by digit; it serves to evaluate \<open>bitlen_nat\<close>
  on numerals.
\<close>

primrec num_bitlen :: "num \<Rightarrow> nat" where
  "num_bitlen num.One = 1"
| "num_bitlen (num.Bit0 n) = Suc (num_bitlen n)"
| "num_bitlen (num.Bit1 n) = Suc (num_bitlen n)"

section \<open>Auxiliary facts\<close>

lemmas rule_names = VALID_PERIOD_TOO_LONG_def DEPRECATED_SIGNATURE_ALGORITHM_def
  DEPRECATED_VERSION_def MISSING_CN_IN_SAN_def KEY_TOO_SHORT_def EXP_TOO_SMALL_def

subsection \<open>Evaluating the arithmetic of floats\<close>

lemma bitlen_nat_0: "bitlen_nat 0 = 0"
  by (simp add: bitlen_nat.simps)

lemma bitlen_nat_1: "bitlen_nat 1 = 1" "bitlen_nat (Suc 0) = 1"
  by (simp_all add: bitlen_nat.simps)

lemma bitlen_nat_numeral: "bitlen_nat (numeral n) = num_bitlen n"
proof (induction n)
  case One
  show ?case by (simp add: bitlen_nat.simps)
next
  case (Bit0 n)
  have "bitlen_nat (numeral (num.Bit0 n)) = Suc (bitlen_nat (numeral (num.Bit0 n) div 2))"
    by (subst bitlen_nat.simps) simp
  then show ?case using Bit0 by simp
next
  case (Bit1 n)
  have "bitlen_nat (numeral (num.Bit1 n)) = Suc (bitlen_nat (numeral (num.Bit1 n) div 2))"
    by (subst bitlen_nat.simps) simp
  then show ?case using Bit1 by simp
qed

lemma floor_numeral_divide: "\<lfloor>numeral a / numeral b :: rat\<rfloor> = numeral a div numeral b"
  using floor_divide_of_int_eq [of "numeral a" "numeral b", where ?'a = rat] by simp

lemma ceiling_numeral_divide:
  "\<lceil>numeral a / numeral b :: rat\<rceil> = - ((- numeral a) div numeral b)"
  using floor_divide_of_int_eq [of "- numeral a" "numeral b", where ?'a = rat]
  by (simp add: ceiling_def)

lemma floor_one_divide: "\<lfloor>1 / numeral b :: rat\<rfloor> = 1 div numeral b"
  using floor_divide_of_int_eq [of 1 "numeral b", where ?'a = rat] by simp

lemma ceiling_one_divide: "\<lceil>1 / numeral b :: rat\<rceil> = - ((- 1) div numeral b)"
  using floor_divide_of_int_eq [of "- 1" "numeral b", where ?'a = rat]
  by (simp add: ceiling_def)

lemmas f32_eval = round32_def ilog2_def pow2_def round_even_def Let_def
  bitlen_nat_0 bitlen_nat_1 bitlen_nat_numeral
  floor_numeral_divide ceiling_numeral_divide floor_one_divide ceiling_one_divide
  float32_of_uint64_def float32_of_len_def fsub_def

text \<open>
  Rounding at work: one tenth and two thirds are not binary32 numbers; adding 1 to \<open>2^24\<close>
  changes nothing, and the conversion of \<open>2^24 + 1\<close> gives \<open>2^24\<close>; the largest number
  is \<open>2^128 - 2^104\<close>, and half a step beyond it comes infinity.
\<close>

lemma round32_examples:
  "round32 (1 / 10) = Fin (13421773 / 134217728)"
  "round32 (2 / 3) = Fin (11184811 / 16777216)"
  "round32 (- 5 / 2) = Fin (- 5 / 2)"
  "round32 (2 ^ 128 - 2 ^ 103 - 1) = Fin (2 ^ 128 - 2 ^ 104)"
  "round32 (2 ^ 128 - 2 ^ 103) = PInf"
  by (simp_all add: f32_eval)

lemma float32_stops_at_2_24:
  "fadd (Fin 16777216) (Fin 1) = Fin 16777216"
  "float32_of_uint64 16777217 = Fin 16777216"
  by (simp_all add: f32_eval)

lemma float32_of_small:
  "float32_of_uint64 0 = Fin 0" "float32_of_uint64 1 = Fin 1" "float32_of_uint64 2 = Fin 2"
  "float32_of_len 6 = Fin 6"
  by (simp_all add: f32_eval)

text \<open>The sums and quotients of the test, with 0.9 for the binary32 number \<open>7549747 / 2^23\<close>.\<close>

lemma test_sums:
  "fadd (Fin 0) tenth = tenth"
  "fadd tenth (Fin 0) = tenth"
  "fadd (Fin 0) (Fin 0) = Fin 0"
  "fadd (Fin 0) (Fin 1) = Fin 1"
  "fadd (Fin 1) (Fin 1) = Fin 2"
  by (simp_all add: f32_eval tenth_def)

lemma test_quotients:
  "fsub (Fin 1) (fdiv tenth (Fin 1)) = Fin (7549747 / 8388608)"
  "fsub (Fin 1) (fdiv (Fin (7549747 / 8388608)) (Fin 1)) = Fin (838861 / 8388608)"
  "fsub (Fin 1) (fdiv (Fin 2) (Fin 2)) = Fin 0"
  "fsub (Fin 1) (fdiv (Fin 0) (Fin 1)) = Fin 1"
  "fsub (Fin 1) (fdiv (Fin 0) (Fin 2)) = Fin 1"
  "fsub (Fin 1) (fdiv (Fin 1) (Fin 1)) = Fin 0"
  "fsub (Fin 1) (fdiv (Fin 0) (Fin 0)) = NaN"
  by (simp_all add: f32_eval tenth_def)

lemma test_means:
  "mean [Fin (7549747 / 8388608), Fin 1, Fin 1, Fin 1, Fin 1, Fin (7549747 / 8388608)]
     = Fin (2027247 / 2097152)"
  "mean [Fin 0, Fin 1, Fin 1, Fin 1, Fin 1, Fin 0] = Fin (11184811 / 16777216)"
  "mean [NaN, NaN, NaN, NaN, NaN, NaN] = NaN"
  by (simp_all add: mean_def f32_eval)

text \<open>
  The order of the visit does not matter for the bucket of the test: the two scores 0.9 and
  the four scores 1 give the same mean in each of their fifteen arrangements. (The raw
  scores are 0 and 1, and their partial sums are whole numbers, free of rounding.)
\<close>

lemma test_mean_in_every_order:
  "mean [Fin (7549747 / 8388608), Fin (7549747 / 8388608), Fin 1, Fin 1, Fin 1, Fin 1]
     = Fin (2027247 / 2097152)"
  "mean [Fin (7549747 / 8388608), Fin 1, Fin (7549747 / 8388608), Fin 1, Fin 1, Fin 1]
     = Fin (2027247 / 2097152)"
  "mean [Fin (7549747 / 8388608), Fin 1, Fin 1, Fin (7549747 / 8388608), Fin 1, Fin 1]
     = Fin (2027247 / 2097152)"
  "mean [Fin (7549747 / 8388608), Fin 1, Fin 1, Fin 1, Fin (7549747 / 8388608), Fin 1]
     = Fin (2027247 / 2097152)"
  "mean [Fin (7549747 / 8388608), Fin 1, Fin 1, Fin 1, Fin 1, Fin (7549747 / 8388608)]
     = Fin (2027247 / 2097152)"
  "mean [Fin 1, Fin (7549747 / 8388608), Fin (7549747 / 8388608), Fin 1, Fin 1, Fin 1]
     = Fin (2027247 / 2097152)"
  "mean [Fin 1, Fin (7549747 / 8388608), Fin 1, Fin (7549747 / 8388608), Fin 1, Fin 1]
     = Fin (2027247 / 2097152)"
  "mean [Fin 1, Fin (7549747 / 8388608), Fin 1, Fin 1, Fin (7549747 / 8388608), Fin 1]
     = Fin (2027247 / 2097152)"
  "mean [Fin 1, Fin (7549747 / 8388608), Fin 1, Fin 1, Fin 1, Fin (7549747 / 8388608)]
     = Fin (2027247 / 2097152)"
  "mean [Fin 1, Fin 1, Fin (7549747 / 8388608), Fin (7549747 / 8388608), Fin 1, Fin 1]
     = Fin (2027247 / 2097152)"
  "mean [Fin 1, Fin 1, Fin (7549747 / 8388608), Fin 1, Fin (7549747 / 8388608), Fin 1]
     = Fin (2027247 / 2097152)"
  "mean [Fin 1, Fin 1, Fin (7549747 / 8388608), Fin 1, Fin 1, Fin (7549747 / 8388608)]
     = Fin (2027247 / 2097152)"
  "mean [Fin 1, Fin 1, Fin 1, Fin (7549747 / 8388608), Fin (7549747 / 8388608), Fin 1]
     = Fin (2027247 / 2097152)"
  "mean [Fin 1, Fin 1, Fin 1, Fin (7549747 / 8388608), Fin 1, Fin (7549747 / 8388608)]
     = Fin (2027247 / 2097152)"
  "mean [Fin 1, Fin 1, Fin 1, Fin 1, Fin (7549747 / 8388608), Fin (7549747 / 8388608)]
     = Fin (2027247 / 2097152)"
  by (simp_all add: mean_def f32_eval)

subsection \<open>The violations map through the blocks of the evaluator\<close>

lemma map_of_clear_loop:
  "k \<noteq> k' \<Longrightarrow>
   map_of (foldl (\<lambda>v x. if P x then AList.update k' b v else v) v0 xs) k = map_of v0 k"
  by (induction xs arbitrary: v0) (simp_all add: update_conv')

lemma map_of_check_MissingCN:
  "k \<noteq> MISSING_CN_IN_SAN \<Longrightarrow> map_of (check_MissingCN lib cert p v) k = map_of v k"
  by (simp add: check_MissingCN_def Let_def map_of_clear_loop update_conv' split: option.split)

lemma map_of_check_ValidPeriod:
  "map_of (check_ValidPeriod cert v) k =
     (if k = VALID_PERIOD_TOO_LONG \<and> AddDate (NotBefore cert) 5 0 7 < NotAfter cert \<and>
         \<not> (BasicConstraintsValid cert \<and> Certificate.IsCA cert)
      then Some True else map_of v k)"
  by (auto simp add: check_ValidPeriod_def update_conv')

lemma map_of_check_SignatureAlgorithm:
  "k \<noteq> DEPRECATED_SIGNATURE_ALGORITHM \<Longrightarrow>
   map_of (check_SignatureAlgorithm cert v) k = map_of v k"
  by (simp add: check_SignatureAlgorithm_def update_conv')

lemma map_of_check_PublicKey:
  "map_of (snd (snd (check_PublicKey cert v))) k =
     (case PublicKey cert of
        RSA_PublicKey N E \<Rightarrow>
          if k = EXP_TOO_SMALL \<and> E \<le> 3 then Some True
          else if k = KEY_TOO_SHORT \<and> BitLen N \<le> 1024 then Some True
          else map_of v k
      | Other_PublicKey \<Rightarrow> map_of v k)"
  by (simp add: check_PublicKey_def update_conv' Let_def rule_names split: PublicKey.split)

lemma Violations_CalculateCertSummary:
  "k \<noteq> MISSING_CN_IN_SAN \<Longrightarrow>
   map_of (Violations (CalculateCertSummary lib cert ts ranker chain m)) k =
   map_of (snd (snd (check_PublicKey cert
      (check_SignatureAlgorithm cert (check_ValidPeriod cert (initial_Violations cert)))))) k"
  by (simp add: CalculateCertSummary_def Let_def map_of_check_MissingCN
        split: prod.split option.split)

lemma BitLen_test_modulus: "BitLen test_modulus = 512"
  by (simp add: BitLen_def test_modulus_def bitlen_nat.simps)

text \<open>
  Adding days with \<open>AddDate\<close> moves the result by whole days: \<open>AddDate t 5 0 7\<close> is seven
  days after the same date and time of day five years on.
\<close>

lemma AddDate_days: "AddDate t y mo d = AddDate t y mo 0 + d * 86400"
  by (simp add: AddDate_def Date_UTC_def Let_def algebra_simps split: prod.split)

text \<open>
  From 00:16:40 on January 1, 1970 to 00:16:40 on January 8, 1975; and, over a leap day,
  from February 29, 2016 to March 8, 2021.
\<close>

lemma AddDate_test_cert: "AddDate (NotBefore test_cert) 5 0 7 = 158372200"
  by code_simp

lemma AddDate_leap_day: "AddDate 1456704000 5 0 7 = 1615161600"
  by code_simp

section \<open>The claims on the compliance evaluator\<close>

text \<open>
  Claim C7. For a certificate with an RSA public key, the summary's \<open>KeyTooShort\<close> flag
  is true when the bit length of the modulus is at most 1024 and false when it is greater;
  for any other key the flag is false and the summary's \<open>KeySize\<close> is -1. This holds on
  each of the three ways out of \<open>CalculateCertSummary\<close>.
\<close>

theorem KeyTooShort_iff_RSA_at_most_1024:
  "case PublicKey cert of
     RSA_PublicKey N E \<Rightarrow>
       map_of (Violations (CalculateCertSummary lib cert ts ranker chain m)) KEY_TOO_SHORT
         = Some (BitLen N \<le> 1024)
   | Other_PublicKey \<Rightarrow>
       map_of (Violations (CalculateCertSummary lib cert ts ranker chain m)) KEY_TOO_SHORT
         = Some False \<and>
       KeySize (CalculateCertSummary lib cert ts ranker chain m) = - 1"
proof -
  have k: "KEY_TOO_SHORT \<noteq> MISSING_CN_IN_SAN"
    by (simp add: rule_names)
  have ks: "PublicKey cert = Other_PublicKey \<Longrightarrow>
      KeySize (CalculateCertSummary lib cert ts ranker chain m) = - 1"
    by (simp add: CalculateCertSummary_def Let_def check_PublicKey_def
        split: prod.split option.split)
  show ?thesis
    using ks
    apply (simp only: Violations_CalculateCertSummary [OF k] map_of_check_PublicKey)
    apply (simp add: map_of_check_SignatureAlgorithm map_of_check_ValidPeriod
        initial_Violations_def rule_names split: PublicKey.split)
    done
qed

theorem KeyTooShort_witness:
  "map_of (Violations (CalculateCertSummary ascii_lib test_cert 0 None [] [])) KEY_TOO_SHORT
     = Some True \<and>
   map_of (Violations (CalculateCertSummary ascii_lib
       (test_cert\<lparr>PublicKey := RSA_PublicKey (2 ^ 1024) 65537\<rparr>) 0 None [] [])) KEY_TOO_SHORT
     = Some False \<and>
   map_of (Violations (CalculateCertSummary ascii_lib
       (test_cert\<lparr>PublicKey := Other_PublicKey\<rparr>) 0 None [] [])) KEY_TOO_SHORT
     = Some False \<and>
   KeySize (CalculateCertSummary ascii_lib
       (test_cert\<lparr>PublicKey := Other_PublicKey\<rparr>) 0 None [] []) = - 1"
proof -
  have b: "BitLen (2 ^ 1024) = 1025"
    by (simp add: BitLen_def bitlen_nat.simps)
  show ?thesis
    using KeyTooShort_iff_RSA_at_most_1024 [of ascii_lib test_cert 0 None "[]" "[]"]
      KeyTooShort_iff_RSA_at_most_1024 [of ascii_lib
        "test_cert\<lparr>PublicKey := RSA_PublicKey (2 ^ 1024) 65537\<rparr>" 0 None "[]" "[]"]
      KeyTooShort_iff_RSA_at_most_1024 [of ascii_lib
        "test_cert\<lparr>PublicKey := Other_PublicKey\<rparr>" 0 None "[]" "[]"]
    by (simp add: test_cert_def BitLen_test_modulus b [simplified])
qed

text \<open>
  Claim C6. The \<open>ValidPeriodTooLong\<close> flag of the summary is true if and only if
  \<open>notAfter\<close> is strictly later than \<open>notBefore\<close> plus 5 years plus 7 days (the time
  \<open>AddDate(5, 0, 7)\<close> gives, see \<open>AddDate_days\<close>) and the certificate is not a
  certificate authority, where a certificate without valid basic constraints counts as
  none.
\<close>

theorem ValidPeriodTooLong_iff:
  "map_of (Violations (CalculateCertSummary lib cert ts ranker chain m)) VALID_PERIOD_TOO_LONG
     = Some (AddDate (NotBefore cert) 5 0 7 < NotAfter cert \<and>
             \<not> (BasicConstraintsValid cert \<and> Certificate.IsCA cert))"
proof -
  have k: "VALID_PERIOD_TOO_LONG \<noteq> MISSING_CN_IN_SAN"
    by (simp add: rule_names)
  show ?thesis
    apply (simp only: Violations_CalculateCertSummary [OF k] map_of_check_PublicKey)
    apply (simp add: map_of_check_SignatureAlgorithm map_of_check_ValidPeriod
        initial_Violations_def rule_names split: PublicKey.split)
    done
qed

theorem ValidPeriodTooLong_witness:
  "map_of (Violations (CalculateCertSummary ascii_lib test_cert 0 None [] []))
     VALID_PERIOD_TOO_LONG = Some False \<and>
   map_of (Violations (CalculateCertSummary ascii_lib
       (test_cert\<lparr>NotAfter := 158372201, BasicConstraintsValid := False\<rparr>) 0 None [] []))
     VALID_PERIOD_TOO_LONG = Some True \<and>
   map_of (Violations (CalculateCertSummary ascii_lib
       (test_cert\<lparr>NotAfter := 158372200, BasicConstraintsValid := False\<rparr>) 0 None [] []))
     VALID_PERIOD_TOO_LONG = Some False \<and>
   map_of (Violations (CalculateCertSummary ascii_lib
       (test_cert\<lparr>NotAfter := 158372201\<rparr>) 0 None [] []))
     VALID_PERIOD_TOO_LONG = Some False"
proof -
  have a: "AddDate 1000 5 0 7 = 158372200"
    using AddDate_test_cert by (simp add: test_cert_def)
  show ?thesis
    using ValidPeriodTooLong_iff [of ascii_lib test_cert 0 None "[]" "[]"]
      ValidPeriodTooLong_iff [of ascii_lib
        "test_cert\<lparr>NotAfter := 158372201, BasicConstraintsValid := False\<rparr>" 0 None "[]" "[]"]
      ValidPeriodTooLong_iff [of ascii_lib
        "test_cert\<lparr>NotAfter := 158372200, BasicConstraintsValid := False\<rparr>" 0 None "[]" "[]"]
      ValidPeriodTooLong_iff [of ascii_lib
        "test_cert\<lparr>NotAfter := 158372201\<rparr>" 0 None "[]" "[]"]
    by (simp add: test_cert_def a)
qed

text \<open>
  Claim C9. Called without a ranker, \<open>CalculateCertSummary\<close> returns a summary whose
  \<open>MaxReputation\<close> is 0 and not the sentinel -1, and \<open>IssuerReputation.Update\<close>
  counts that summary in \<open>NormalizedCount\<close>.
\<close>

theorem nil_ranker_counts_as_known:
  "MaxReputation (CalculateCertSummary lib cert ts None chain m) = Fin 0 \<and>
   NormalizedCount (IssuerReputation_Update issuer (CalculateCertSummary lib cert ts None chain m))
     = NormalizedCount issuer + 1"
proof -
  have "MaxReputation (CalculateCertSummary lib cert ts None chain m) = Fin 0"
    by (simp add: CalculateCertSummary_def Let_def lookup_MaxReputation_def
        split: prod.split option.split)
  then show ?thesis
    by (simp add: IssuerReputation_Update_def Let_def)
qed

theorem nil_ranker_witness:
  "MaxReputation (CalculateCertSummary ascii_lib test_cert 0 None [] []) = Fin 0 \<and>
   NormalizedCount (IssuerReputation_Update (NewIssuerReputation UTC Acme_Co 0)
       (CalculateCertSummary ascii_lib test_cert 0 None [] [])) = 1"
  using nil_ranker_counts_as_known
    [of ascii_lib test_cert 0 "[]" "[]" "NewIssuerReputation UTC Acme_Co 0"]
  by (simp add: NewIssuerReputation_def)

text \<open>
  Claim C1 says that a common name which is not empty and which \<open>idna.ToASCII\<close> rejects
  leaves \<open>MissingCNInSan\<close> true. The map literal starts the rule as false, and the
  function returns on the conversion error before the line that sets the rule: for the
  test certificate without its DNS name, and a library whose \<open>ToASCII\<close> rejects the
  name, the flag is not true.
\<close>

theorem MissingCNInSan_true_on_Punycode_failure_counterexample:
  "CommonName (Subject (test_cert\<lparr>DNSNames := []\<rparr>)) \<noteq> [] \<and>
   ToASCII rejecting_lib (CommonName (Subject (test_cert\<lparr>DNSNames := []\<rparr>))) = None \<and>
   map_of (Violations (CalculateCertSummary rejecting_lib (test_cert\<lparr>DNSNames := []\<rparr>)
       0 None [] [])) MISSING_CN_IN_SAN \<noteq> Some True"
  by (simp add: CalculateCertSummary_def Let_def rejecting_lib_def test_cert_def Acme_Co_def
      check_PublicKey_def check_SignatureAlgorithm_def check_ValidPeriod_def
      initial_Violations_def rule_names SHA1WithRSA_def BitLen_test_modulus)

text \<open>
  Claim C1, as the code has it: for a common name which is not empty and which
  \<open>idna.ToASCII\<close> rejects, the \<open>MissingCNInSan\<close> flag of the summary is false, the
  value the map literal gave it.
\<close>

theorem MissingCNInSan_false_on_Punycode_failure:
  assumes "CommonName (Subject cert) \<noteq> []"
    and "ToASCII lib (CommonName (Subject cert)) = None"
  shows "map_of (Violations (CalculateCertSummary lib cert ts ranker chain m)) MISSING_CN_IN_SAN
           = Some False"
  using assms
  by (simp add: CalculateCertSummary_def Let_def check_PublicKey_def update_conv'
        map_of_check_SignatureAlgorithm map_of_check_ValidPeriod initial_Violations_def rule_names
        split: prod.split PublicKey.split)

theorem MissingCNInSan_false_witness:
  "CommonName (Subject (test_cert\<lparr>DNSNames := []\<rparr>)) \<noteq> [] \<and>
   ToASCII rejecting_lib (CommonName (Subject (test_cert\<lparr>DNSNames := []\<rparr>))) = None \<and>
   map_of (Violations (CalculateCertSummary rejecting_lib (test_cert\<lparr>DNSNames := []\<rparr>)
       0 None [] [])) MISSING_CN_IN_SAN = Some False"
proof -
  have 1: "CommonName (Subject (test_cert\<lparr>DNSNames := []\<rparr>)) \<noteq> []"
    by (simp add: test_cert_def Acme_Co_def)
  have 2: "ToASCII rejecting_lib (CommonName (Subject (test_cert\<lparr>DNSNames := []\<rparr>))) = None"
    by (simp add: rejecting_lib_def)
  show ?thesis
    using 1 2 MissingCNInSan_false_on_Punycode_failure [OF 1 2, of 0 None "[]" "[]"]
    by simp
qed

section \<open>Auxiliary facts on the aggregator\<close>

subsection \<open>The score map through an update\<close>

lemma map_of_Update_rule:
  "map_of (Update_rule rep (n, v) scores) k =
     (if k = n
      then Some (if v then IssuerReputationScore_Update (score_of scores n) rep
                 else score_of scores n)
      else map_of scores k)"
  by (auto simp add: Update_rule_def Let_def score_of_def update_conv' split: option.split)

lemma score_of_Update_rule_other:
  "k \<noteq> n \<Longrightarrow> score_of (Update_rule rep (n, v) scores) k = score_of scores k"
  by (simp add: score_of_def map_of_Update_rule)

lemma map_of_Update_loop:
  "distinct (map fst vs) \<Longrightarrow>
   map_of (foldl (\<lambda>scores nv. Update_rule rep nv scores) scores vs) k =
     (case map_of vs k of
        None \<Rightarrow> map_of scores k
      | Some v \<Rightarrow> Some (if v then IssuerReputationScore_Update (score_of scores k) rep
                        else score_of scores k))"
proof (induction vs arbitrary: scores)
  case Nil
  then show ?case by simp
next
  case (Cons nv vs)
  obtain n v where nv: "nv = (n, v)" by (cases nv)
  from Cons.prems nv have fresh: "map_of vs n = None" and d: "distinct (map fst vs)"
    by (auto simp add: map_of_eq_None_iff)
  have step: "map_of (foldl (\<lambda>scores nv. Update_rule rep nv scores)
                  (Update_rule rep (n, v) scores) vs) k =
     (case map_of vs k of
        None \<Rightarrow> map_of (Update_rule rep (n, v) scores) k
      | Some v' \<Rightarrow>
          Some (if v' then IssuerReputationScore_Update
                            (score_of (Update_rule rep (n, v) scores) k) rep
                else score_of (Update_rule rep (n, v) scores) k))"
    by (rule Cons.IH [OF d])
  show ?case
  proof (cases "k = n")
    case True
    with fresh have "map_of vs k = None" by simp
    with step True show ?thesis
      by (simp add: nv map_of_Update_rule)
  next
    case False
    with step show ?thesis
      by (simp add: nv map_of_Update_rule score_of_Update_rule_other split: option.split)
  qed
qed

lemma map_of_Scores_Update:
  "map_of (Scores (IssuerReputation_Update issuer summary)) k =
     (case map_of (Violations summary) k of
        None \<Rightarrow> map_of (Scores issuer) k
      | Some v \<Rightarrow>
          Some (if v then IssuerReputationScore_Update (score_of (Scores issuer) k) (weight summary)
                else score_of (Scores issuer) k))"
  by (simp add: IssuerReputation_Update_def Let_def range_map_def weight_def
      map_of_Update_loop map_of_clearjunk split: option.split)

lemma map_of_test_Violations:
  "map_of test_Violations VALID_PERIOD_TOO_LONG = Some True"
  "map_of test_Violations DEPRECATED_SIGNATURE_ALGORITHM = Some False"
  "map_of test_Violations DEPRECATED_VERSION = Some False"
  "map_of test_Violations KEY_TOO_SHORT = Some False"
  "map_of test_Violations EXP_TOO_SMALL = Some False"
  "map_of test_Violations MISSING_CN_IN_SAN = Some True"
  by (simp_all add: test_Violations_def rule_names)

subsection \<open>Which rules have an entry\<close>

lemma entry_Update:
  "has_entry (Scores (IssuerReputation_Update issuer summary)) k =
     (has_entry (Scores issuer) k \<or> has_entry (Violations summary) k)"
  by (simp add: has_entry_def map_of_Scores_Update split: option.split)

lemma entry_Updates:
  "has_entry (Scores (foldl IssuerReputation_Update issuer summaries)) k =
     (has_entry (Scores issuer) k \<or>
      (\<exists>summary \<in> set summaries. has_entry (Violations summary) k))"
  by (induction summaries arbitrary: issuer) (simp_all add: entry_Update)

subsection \<open>The score map through the finalisation\<close>

lemma Finish_loop_eq:
  "Finish_loop nc rc xs (a, b) =
     (map (\<lambda>e. (fst e, IssuerReputationScore_Finish (snd e) nc rc)) xs,
      foldl fadd a (map (\<lambda>e. IssuerReputationScore.NormalizedScore
                                (IssuerReputationScore_Finish (snd e) nc rc)) xs),
      foldl fadd b (map (\<lambda>e. IssuerReputationScore.RawScore
                                (IssuerReputationScore_Finish (snd e) nc rc)) xs))"
  by (induction xs arbitrary: a b) (auto simp add: Let_def)

lemma Scores_Finish:
  "Scores (IssuerReputation_Finish issuer) =
     map (\<lambda>e. (fst e, IssuerReputationScore_Finish (snd e)
                         (NormalizedCount issuer) (RawCount issuer)))
       (range_map (Scores issuer))"
  by (simp add: IssuerReputation_Finish_def Finish_loop_eq)

lemma means_Finish:
  "IssuerReputation.NormalizedScore (IssuerReputation_Finish issuer) =
     mean (map (\<lambda>e. IssuerReputationScore.NormalizedScore (snd e))
             (Scores (IssuerReputation_Finish issuer)))"
  "IssuerReputation.RawScore (IssuerReputation_Finish issuer) =
     mean (map (\<lambda>e. IssuerReputationScore.RawScore (snd e))
             (Scores (IssuerReputation_Finish issuer)))"
  by (simp_all add: IssuerReputation_Finish_def Finish_loop_eq mean_def comp_def)

lemma counts_Finish:
  "NormalizedCount (IssuerReputation_Finish issuer) = NormalizedCount issuer"
  "RawCount (IssuerReputation_Finish issuer) = RawCount issuer"
  "done_flag (IssuerReputation_Finish issuer) = done_flag issuer"
  by (simp_all add: IssuerReputation_Finish_def Finish_loop_eq)

lemma map_of_map_entries:
  "map_of (map (\<lambda>e. (fst e, f (snd e))) xs) k = map_option f (map_of xs k)"
  by (induction xs) auto

lemma map_of_Scores_Finish:
  "map_of (Scores (IssuerReputation_Finish issuer)) k =
     map_option (\<lambda>score. IssuerReputationScore_Finish score
                            (NormalizedCount issuer) (RawCount issuer))
       (map_of (Scores issuer) k)"
  by (simp add: Scores_Finish range_map_def map_of_clearjunk
      map_of_map_entries [where f = "\<lambda>score. IssuerReputationScore_Finish score
                                               (NormalizedCount issuer) (RawCount issuer)"])

lemma keys_Scores_Finish:
  "map fst (Scores (IssuerReputation_Finish issuer)) = map fst (range_map (Scores issuer))"
  by (simp add: Scores_Finish comp_def)

lemma distinct_Scores_Finish:
  "distinct (map fst (Scores (IssuerReputation_Finish issuer)))"
  by (simp add: keys_Scores_Finish range_map_def)

lemma range_map_Scores_Finish:
  "range_map (Scores (IssuerReputation_Finish issuer)) = Scores (IssuerReputation_Finish issuer)"
  by (simp add: range_map_def distinct_Scores_Finish)

lemma has_entry_Finish:
  "has_entry (Scores (IssuerReputation_Finish issuer)) k = has_entry (Scores issuer) k"
  by (simp add: has_entry_def map_of_Scores_Finish)

lemma Scores_New: "Scores (NewIssuerReputation zone issuer ts) = []"
  by (simp add: NewIssuerReputation_def)

subsection \<open>The counters through an update\<close>

lemma counts_Update:
  "RawCount (IssuerReputation_Update issuer summary) = RawCount issuer + 1"
  "NormalizedCount (IssuerReputation_Update issuer summary) =
     (if MaxReputation summary \<noteq> Fin (- 1) then NormalizedCount issuer + 1
      else NormalizedCount issuer)"
  by (simp_all add: IssuerReputation_Update_def Let_def)

subsection \<open>The buckets of the test\<close>

lemma tenth_ranked: "tenth \<noteq> Fin (- 1)"
  by (simp add: tenth_def)

lemma reputation_of_test_summaries:
  "MaxReputation test_summary = tenth"
  "MaxReputation unknown_summary = Fin (- 1)"
  "Violations test_summary = test_Violations" "Violations unknown_summary = test_Violations"
  by (simp_all add: test_summary_def unknown_summary_def)

lemma range_map_test_Violations: "range_map test_Violations = test_Violations"
  by (simp add: range_map_def test_Violations_def rule_names)

lemma counts_test_bucket:
  "RawCount test_bucket = 2" "NormalizedCount test_bucket = 1" "done_flag test_bucket = False"
  by (simp_all add: test_bucket_def counts_Update reputation_of_test_summaries tenth_ranked)
    (simp_all add: NewIssuerReputation_def IssuerReputation_Update_def Let_def)

lemma counts_unranked_bucket:
  "RawCount unranked_bucket = 1" "NormalizedCount unranked_bucket = 0"
  by (simp_all add: unranked_bucket_def counts_Update reputation_of_test_summaries)
    (simp_all add: NewIssuerReputation_def)

lemma Scores_after_test_summary:
  "Scores (IssuerReputation_Update (NewIssuerReputation UTC Honest_Al 1414800000) test_summary) =
     [(VALID_PERIOD_TOO_LONG,
         \<lparr>IssuerReputationScore.NormalizedScore = tenth, IssuerReputationScore.RawScore = Fin 1\<rparr>),
      (DEPRECATED_SIGNATURE_ALGORITHM,
         \<lparr>IssuerReputationScore.NormalizedScore = Fin 0, IssuerReputationScore.RawScore = Fin 0\<rparr>),
      (DEPRECATED_VERSION,
         \<lparr>IssuerReputationScore.NormalizedScore = Fin 0, IssuerReputationScore.RawScore = Fin 0\<rparr>),
      (KEY_TOO_SHORT,
         \<lparr>IssuerReputationScore.NormalizedScore = Fin 0, IssuerReputationScore.RawScore = Fin 0\<rparr>),
      (EXP_TOO_SMALL,
         \<lparr>IssuerReputationScore.NormalizedScore = Fin 0, IssuerReputationScore.RawScore = Fin 0\<rparr>),
      (MISSING_CN_IN_SAN,
         \<lparr>IssuerReputationScore.NormalizedScore = tenth, IssuerReputationScore.RawScore = Fin 1\<rparr>)]"
  by (simp add: IssuerReputation_Update_def Let_def NewIssuerReputation_def
      reputation_of_test_summaries tenth_ranked range_map_test_Violations)
    (simp add: test_Violations_def Update_rule_def IssuerReputationScore_Update_def
      new_IssuerReputationScore_def rule_names test_sums del: fadd.simps)

lemma Scores_test_bucket:
  "Scores test_bucket =
     [(VALID_PERIOD_TOO_LONG,
         \<lparr>IssuerReputationScore.NormalizedScore = tenth, IssuerReputationScore.RawScore = Fin 2\<rparr>),
      (DEPRECATED_SIGNATURE_ALGORITHM,
         \<lparr>IssuerReputationScore.NormalizedScore = Fin 0, IssuerReputationScore.RawScore = Fin 0\<rparr>),
      (DEPRECATED_VERSION,
         \<lparr>IssuerReputationScore.NormalizedScore = Fin 0, IssuerReputationScore.RawScore = Fin 0\<rparr>),
      (KEY_TOO_SHORT,
         \<lparr>IssuerReputationScore.NormalizedScore = Fin 0, IssuerReputationScore.RawScore = Fin 0\<rparr>),
      (EXP_TOO_SMALL,
         \<lparr>IssuerReputationScore.NormalizedScore = Fin 0, IssuerReputationScore.RawScore = Fin 0\<rparr>),
      (MISSING_CN_IN_SAN,
         \<lparr>IssuerReputationScore.NormalizedScore = tenth, IssuerReputationScore.RawScore = Fin 2\<rparr>)]"
  by (simp add: test_bucket_def IssuerReputation_Update_def [of _ unknown_summary] Let_def
      Scores_after_test_summary reputation_of_test_summaries range_map_test_Violations)
    (simp add: test_Violations_def Update_rule_def IssuerReputationScore_Update_def
      rule_names test_sums del: fadd.simps)

lemma Scores_unranked_bucket:
  "Scores unranked_bucket =
     [(VALID_PERIOD_TOO_LONG,
         \<lparr>IssuerReputationScore.NormalizedScore = Fin 0, IssuerReputationScore.RawScore = Fin 1\<rparr>),
      (DEPRECATED_SIGNATURE_ALGORITHM,
         \<lparr>IssuerReputationScore.NormalizedScore = Fin 0, IssuerReputationScore.RawScore = Fin 0\<rparr>),
      (DEPRECATED_VERSION,
         \<lparr>IssuerReputationScore.NormalizedScore = Fin 0, IssuerReputationScore.RawScore = Fin 0\<rparr>),
      (KEY_TOO_SHORT,
         \<lparr>IssuerReputationScore.NormalizedScore = Fin 0, IssuerReputationScore.RawScore = Fin 0\<rparr>),
      (EXP_TOO_SMALL,
         \<lparr>IssuerReputationScore.NormalizedScore = Fin 0, IssuerReputationScore.RawScore = Fin 0\<rparr>),
      (MISSING_CN_IN_SAN,
         \<lparr>IssuerReputationScore.NormalizedScore = Fin 0, IssuerReputationScore.RawScore = Fin 1\<rparr>)]"
  by (simp add: unranked_bucket_def IssuerReputation_Update_def Let_def NewIssuerReputation_def
      reputation_of_test_summaries tenth_ranked range_map_test_Violations)
    (simp add: test_Violations_def Update_rule_def IssuerReputationScore_Update_def
      new_IssuerReputationScore_def rule_names test_sums del: fadd.simps)

lemma Scores_Finish_test_bucket:
  "Scores (IssuerReputation_Finish test_bucket) =
     [(VALID_PERIOD_TOO_LONG,
         \<lparr>IssuerReputationScore.NormalizedScore = Fin (7549747 / 8388608), IssuerReputationScore.RawScore = Fin 0\<rparr>),
      (DEPRECATED_SIGNATURE_ALGORITHM,
         \<lparr>IssuerReputationScore.NormalizedScore = Fin 1, IssuerReputationScore.RawScore = Fin 1\<rparr>),
      (DEPRECATED_VERSION,
         \<lparr>IssuerReputationScore.NormalizedScore = Fin 1, IssuerReputationScore.RawScore = Fin 1\<rparr>),
      (KEY_TOO_SHORT,
         \<lparr>IssuerReputationScore.NormalizedScore = Fin 1, IssuerReputationScore.RawScore = Fin 1\<rparr>),
      (EXP_TOO_SMALL,
         \<lparr>IssuerReputationScore.NormalizedScore = Fin 1, IssuerReputationScore.RawScore = Fin 1\<rparr>),
      (MISSING_CN_IN_SAN,
         \<lparr>IssuerReputationScore.NormalizedScore = Fin (7549747 / 8388608), IssuerReputationScore.RawScore = Fin 0\<rparr>)]"
  by (simp add: Scores_Finish Scores_test_bucket counts_test_bucket range_map_def rule_names
      IssuerReputationScore_Finish_def float32_of_small test_quotients
      del: fadd.simps fdiv.simps)

lemma Scores_Finish_unranked_bucket:
  "Scores (IssuerReputation_Finish unranked_bucket) =
     [(VALID_PERIOD_TOO_LONG,
         \<lparr>IssuerReputationScore.NormalizedScore = NaN, IssuerReputationScore.RawScore = Fin 0\<rparr>),
      (DEPRECATED_SIGNATURE_ALGORITHM,
         \<lparr>IssuerReputationScore.NormalizedScore = NaN, IssuerReputationScore.RawScore = Fin 1\<rparr>),
      (DEPRECATED_VERSION,
         \<lparr>IssuerReputationScore.NormalizedScore = NaN, IssuerReputationScore.RawScore = Fin 1\<rparr>),
      (KEY_TOO_SHORT,
         \<lparr>IssuerReputationScore.NormalizedScore = NaN, IssuerReputationScore.RawScore = Fin 1\<rparr>),
      (EXP_TOO_SMALL,
         \<lparr>IssuerReputationScore.NormalizedScore = NaN, IssuerReputationScore.RawScore = Fin 1\<rparr>),
      (MISSING_CN_IN_SAN,
         \<lparr>IssuerReputationScore.NormalizedScore = NaN, IssuerReputationScore.RawScore = Fin 0\<rparr>)]"
  by (simp add: Scores_Finish Scores_unranked_bucket counts_unranked_bucket range_map_def
      rule_names IssuerReputationScore_Finish_def float32_of_small test_quotients
      del: fadd.simps fdiv.simps)

lemma Scores_Finish_Finish_test_bucket:
  "map_of (Scores (IssuerReputation_Finish (IssuerReputation_Finish test_bucket)))
     VALID_PERIOD_TOO_LONG =
     Some \<lparr>IssuerReputationScore.NormalizedScore = Fin (838861 / 8388608),
           IssuerReputationScore.RawScore = Fin 1\<rparr>"
  by (simp add: map_of_Scores_Finish [of "IssuerReputation_Finish test_bucket"] counts_Finish
      Scores_Finish_test_bucket counts_test_bucket
      IssuerReputationScore_Finish_def float32_of_small test_quotients
      del: fadd.simps fdiv.simps)

section \<open>The claims on the reputation aggregator\<close>

text \<open>
  Claim C3 says that, for a summary whose popularity score is not -1 and a rule whose flag
  is true, \<open>Update\<close> adds the score to both running sums of the rule. The first
  summary of the test, with score 0.1 (the binary32 number \<open>13421773 / 2^27\<close>), put into
  a new bucket: the \<open>RawScore\<close> of \<open>ValidPeriodTooLong\<close> is 1 afterwards, not 0.1.
\<close>

theorem Update_adds_popularity_to_RawScore_counterexample:
  "MaxReputation test_summary \<noteq> Fin (- 1) \<and>
   map_of (Violations test_summary) VALID_PERIOD_TOO_LONG = Some True \<and>
   map_of (Scores (NewIssuerReputation UTC Honest_Al 1414800000)) VALID_PERIOD_TOO_LONG = None \<and>
   map_option IssuerReputationScore.RawScore
     (map_of (Scores (IssuerReputation_Update (NewIssuerReputation UTC Honest_Al 1414800000)
        test_summary)) VALID_PERIOD_TOO_LONG) = Some (Fin 1) \<and>
   fadd (Fin 0) (MaxReputation test_summary) = Fin (13421773 / 134217728)"
  using test_sums(1,4) tenth_ranked
  by (simp add: map_of_Scores_Update reputation_of_test_summaries map_of_test_Violations
      NewIssuerReputation_def score_of_def new_IssuerReputationScore_def
      IssuerReputationScore_Update_def weight_def del: fadd.simps)
    (simp add: tenth_def)

text \<open>
  Claim C3, as the code has it: for a summary whose popularity score is not -1 and a rule
  whose flag in it is true, \<open>Update\<close> adds the popularity score to the rule's
  \<open>NormalizedScore\<close> and adds 1, not the popularity score, to its \<open>RawScore\<close>, each
  by one float32 addition to the sum the bucket holds for the rule (zero when the rule has no
  entry yet).
\<close>

theorem Update_adds_popularity_and_one:
  assumes "MaxReputation summary \<noteq> Fin (- 1)"
    and "map_of (Violations summary) name = Some True"
  shows "map_of (Scores (IssuerReputation_Update issuer summary)) name =
           Some \<lparr>IssuerReputationScore.NormalizedScore =
                   fadd (IssuerReputationScore.NormalizedScore (score_of (Scores issuer) name))
                        (MaxReputation summary),
                 IssuerReputationScore.RawScore =
                   fadd (IssuerReputationScore.RawScore (score_of (Scores issuer) name))
                        (Fin 1)\<rparr>"
  using assms
  by (simp add: map_of_Scores_Update weight_def IssuerReputationScore_Update_def)

theorem Update_adds_popularity_and_one_witness:
  "MaxReputation test_summary \<noteq> Fin (- 1) \<and>
   map_of (Violations test_summary) VALID_PERIOD_TOO_LONG = Some True \<and>
   map_of (Scores (IssuerReputation_Update (NewIssuerReputation UTC Honest_Al 1414800000)
        test_summary)) VALID_PERIOD_TOO_LONG =
     Some \<lparr>IssuerReputationScore.NormalizedScore = Fin (13421773 / 134217728),
           IssuerReputationScore.RawScore = Fin 1\<rparr>"
proof -
  have 1: "MaxReputation test_summary \<noteq> Fin (- 1)"
    by (simp add: reputation_of_test_summaries tenth_ranked)
  have 2: "map_of (Violations test_summary) VALID_PERIOD_TOO_LONG = Some True"
    by (simp add: test_summary_def map_of_test_Violations)
  have 3: "fadd (Fin 0) (MaxReputation test_summary) = Fin (13421773 / 134217728)"
    using test_sums(1) by (simp add: reputation_of_test_summaries tenth_def del: fadd.simps)
  have 4: "fadd (Fin 0) (Fin 1) = Fin 1"
    by (rule test_sums)
  show ?thesis
    using 1 2 Update_adds_popularity_and_one [OF 1 2, of "NewIssuerReputation UTC Honest_Al 1414800000"]
    by (simp add: NewIssuerReputation_def score_of_def new_IssuerReputationScore_def 3 4
        del: fadd.simps)
qed

text \<open>
  Claim C2 says that a bucket has an entry for a rule only if some summary passed to
  \<open>Update\<close> had the rule's flag true. The first summary of the test has
  \<open>KeyTooShort\<close> false, and after it the bucket has an entry for that rule.
\<close>

theorem entry_only_if_violated_counterexample:
  "\<not> (\<exists>summary \<in> set [test_summary]. map_of (Violations summary) KEY_TOO_SHORT = Some True) \<and>
   has_entry (Scores (foldl IssuerReputation_Update
       (NewIssuerReputation UTC Honest_Al 1414800000) [test_summary])) KEY_TOO_SHORT"
proof -
  have "has_entry (Violations test_summary) KEY_TOO_SHORT"
    by (simp add: has_entry_def test_summary_def map_of_test_Violations)
  then show ?thesis
    by (simp add: entry_Update) (simp add: test_summary_def map_of_test_Violations)
qed

text \<open>
  Claim C2, as the code has it: a bucket built by \<open>Update\<close> calls has an entry for a
  rule exactly if the rule is a key of the violations map of some summary, whatever the
  flag is; \<open>Finish\<close> keeps the entries, one for each rule, and its
  \<open>NormalizedScore\<close> and \<open>RawScore\<close> are the means of the finished scores over
  exactly the rules that have an entry.
\<close>

theorem entry_iff_rule_in_some_summary:
  "has_entry (Scores (foldl IssuerReputation_Update
       (NewIssuerReputation zone issuer ts) summaries)) name =
     (\<exists>summary \<in> set summaries. has_entry (Violations summary) name) \<and>
   has_entry (Scores (IssuerReputation_Finish bucket)) name = has_entry (Scores bucket) name \<and>
   distinct (map fst (Scores (IssuerReputation_Finish bucket))) \<and>
   IssuerReputation.NormalizedScore (IssuerReputation_Finish bucket) =
     mean (map (\<lambda>e. IssuerReputationScore.NormalizedScore (snd e))
             (Scores (IssuerReputation_Finish bucket))) \<and>
   IssuerReputation.RawScore (IssuerReputation_Finish bucket) =
     mean (map (\<lambda>e. IssuerReputationScore.RawScore (snd e))
             (Scores (IssuerReputation_Finish bucket)))"
  using means_Finish [of bucket]
  by (simp add: entry_Updates has_entry_Finish distinct_Scores_Finish)
    (simp add: has_entry_def Scores_New)

theorem entry_iff_rule_in_some_summary_witness:
  "has_entry (Scores test_bucket) KEY_TOO_SHORT \<and>
   (\<exists>summary \<in> set [test_summary, unknown_summary]. has_entry (Violations summary) KEY_TOO_SHORT) \<and>
   has_entry (Scores (IssuerReputation_Finish test_bucket)) KEY_TOO_SHORT \<and>
   IssuerReputation.NormalizedScore (IssuerReputation_Finish test_bucket) =
     Fin (2027247 / 2097152) \<and>
   IssuerReputation.RawScore (IssuerReputation_Finish test_bucket) = Fin (11184811 / 16777216)"
proof -
  have e: "has_entry (Violations test_summary) KEY_TOO_SHORT"
    by (simp add: has_entry_def test_summary_def map_of_test_Violations)
  note t = entry_iff_rule_in_some_summary [of UTC Honest_Al 1414800000 "[test_summary, unknown_summary]"
        KEY_TOO_SHORT test_bucket, folded test_bucket_def]
  show ?thesis
    using e t
    by (simp add: Scores_Finish_test_bucket test_means)
qed

text \<open>
  Claim C4 says that after \<open>Finish\<close> every entry has both scores in [0,1], for a
  bucket built from valid summaries; the comment on the field \<open>NormalizedScore\<close> of a
  bucket says the same of the bucket's score (\<open>Issuer reputation, between [0, 1]\<close>). The code
  does not keep to it: \<open>IssuerReputationScore.Finish\<close> divides by
  \<open>float32(normalizedCount)\<close> without looking at the count. A new bucket updated once,
  with the unranked summary of the test (popularity score -1, a valid one), has
  \<open>NormalizedCount\<close> 0; \<open>Finish\<close> divides zero by zero for each of the six rules,
  and the \<open>NormalizedScore\<close> of every entry, and that of the bucket, is NaN.
\<close>

theorem Finish_of_unranked_bucket_is_NaN:
  "MaxReputation unknown_summary = Fin (- 1) \<and>
   NormalizedCount unranked_bucket = 0 \<and>
   map_of (Scores (IssuerReputation_Finish unranked_bucket)) VALID_PERIOD_TOO_LONG =
     Some \<lparr>IssuerReputationScore.NormalizedScore = NaN,
           IssuerReputationScore.RawScore = Fin 0\<rparr> \<and>
   map_of (Scores (IssuerReputation_Finish unranked_bucket)) KEY_TOO_SHORT =
     Some \<lparr>IssuerReputationScore.NormalizedScore = NaN,
           IssuerReputationScore.RawScore = Fin 1\<rparr> \<and>
   IssuerReputation.NormalizedScore (IssuerReputation_Finish unranked_bucket) = NaN \<and>
   \<not> in_unit NaN"
  by (simp add: means_Finish Scores_Finish_unranked_bucket test_means counts_unranked_bucket
      reputation_of_test_summaries rule_names)

text \<open>
  Claim C5 says that a second \<open>Finish\<close> is detected through a guard that the first
  one sets. After \<open>Finish\<close> on the bucket of the test the field \<open>done\<close> is still
  false, and a second \<open>Finish\<close> goes through and changes the scores of
  \<open>ValidPeriodTooLong\<close> from (0.9, 0) to (0.100000024, 1): from
  \<open>(7549747 / 2^23, 0)\<close> to \<open>(838861 / 2^23, 1)\<close>.
\<close>

theorem Finish_guard_counterexample:
  "\<not> done_flag (IssuerReputation_Finish test_bucket) \<and>
   map_of (Scores (IssuerReputation_Finish test_bucket)) VALID_PERIOD_TOO_LONG =
     Some \<lparr>IssuerReputationScore.NormalizedScore = Fin (7549747 / 8388608),
           IssuerReputationScore.RawScore = Fin 0\<rparr> \<and>
   map_of (Scores (IssuerReputation_Finish (IssuerReputation_Finish test_bucket)))
     VALID_PERIOD_TOO_LONG =
     Some \<lparr>IssuerReputationScore.NormalizedScore = Fin (838861 / 8388608),
           IssuerReputationScore.RawScore = Fin 1\<rparr>"
  by (simp add: counts_Finish counts_test_bucket Scores_Finish_Finish_test_bucket
      Scores_Finish_test_bucket)

text \<open>
  Claim C5, as the code has it: \<open>Finish\<close> neither reads nor writes the field
  \<open>done\<close> (it does the same on a bucket whatever the field holds, and leaves it as it
  is), and a second \<open>Finish\<close> divides and inverts the finished scores once more, with
  the same counts; single finalisation is left to the caller.
\<close>

theorem Finish_has_no_guard:
  "IssuerReputation_Finish (issuer\<lparr>done_flag := d\<rparr>) =
     (IssuerReputation_Finish issuer)\<lparr>done_flag := d\<rparr> \<and>
   Scores (IssuerReputation_Finish (IssuerReputation_Finish issuer)) =
     map (\<lambda>e. (fst e,
          IssuerReputationScore_Finish
            (IssuerReputationScore_Finish (snd e) (NormalizedCount issuer) (RawCount issuer))
            (NormalizedCount issuer) (RawCount issuer)))
       (range_map (Scores issuer))"
proof -
  have "IssuerReputation_Finish (issuer\<lparr>done_flag := d\<rparr>) =
     (IssuerReputation_Finish issuer)\<lparr>done_flag := d\<rparr>"
    by (simp add: IssuerReputation_Finish_def Finish_loop_eq)
  moreover have "Scores (IssuerReputation_Finish (IssuerReputation_Finish issuer)) =
     map (\<lambda>e. (fst e,
          IssuerReputationScore_Finish
            (IssuerReputationScore_Finish (snd e) (NormalizedCount issuer) (RawCount issuer))
            (NormalizedCount issuer) (RawCount issuer)))
       (range_map (Scores issuer))"
    by (simp add: Scores_Finish [of "IssuerReputation_Finish issuer"]
        range_map_Scores_Finish counts_Finish)
      (simp add: Scores_Finish comp_def)
  ultimately show ?thesis by simp
qed

theorem Finish_has_no_guard_witness:
  "done_flag (IssuerReputation_Finish (test_bucket\<lparr>done_flag := True\<rparr>)) \<and>
   map_of (Scores (IssuerReputation_Finish (IssuerReputation_Finish test_bucket)))
     VALID_PERIOD_TOO_LONG =
     Some \<lparr>IssuerReputationScore.NormalizedScore = Fin (838861 / 8388608),
           IssuerReputationScore.RawScore = Fin 1\<rparr>"
  using Finish_has_no_guard [where issuer = test_bucket and d = True]
  by (simp add: Scores_test_bucket counts_test_bucket range_map_def rule_names
      IssuerReputationScore_Finish_def float32_of_small test_quotients
      del: fadd.simps fdiv.simps)

section \<open>The claim on distinguished names\<close>

lemma maybeAppendFieldToBuffer_first:
  "maybeAppendFieldToBuffer buffer field pre = maybeAppendFieldToBuffer buffer (take 1 field) pre"
  by (cases field) simp_all

lemma DistinguishedNameToString_first:
  assumes "take 1 (Organization n1) = take 1 (Organization n2)"
    and "take 1 (OrganizationalUnit n1) = take 1 (OrganizationalUnit n2)"
    and "CommonName n1 = CommonName n2"
  shows "DistinguishedNameToString n1 = DistinguishedNameToString n2"
proof -
  have "DistinguishedNameToString n =
      maybeAppendFieldToBuffer
        (maybeAppendFieldToBuffer
          (maybeAppendFieldToBuffer [] (take 1 (Organization n)) ''O='')
          (take 1 (OrganizationalUnit n)) ''OU='')
        [CommonName n] ''CN=''" for n
    unfolding DistinguishedNameToString_def Let_def
    by (simp only: maybeAppendFieldToBuffer_first [symmetric])
  then show ?thesis
    using assms by simp
qed

lemma containsIssuerInRootList_append:
  "containsIssuerInRootList (xs @ ys) rootCAMap =
     (containsIssuerInRootList xs rootCAMap \<or> containsIssuerInRootList ys rootCAMap)"
  by (induction xs) simp_all

lemma CalculateCertSummary_Issuer:
  "CalculateCertSummary lib (cert\<lparr>Certificate.Issuer := n\<rparr>) ts ranker chain rootCAMap =
     (CalculateCertSummary lib cert ts ranker chain rootCAMap)
       \<lparr>CertSummary.Issuer := DistinguishedNameToString n\<rparr>"
proof -
  have "initial_Violations (cert\<lparr>Certificate.Issuer := n\<rparr>) = initial_Violations cert"
    "check_ValidPeriod (cert\<lparr>Certificate.Issuer := n\<rparr>) = check_ValidPeriod cert"
    "check_SignatureAlgorithm (cert\<lparr>Certificate.Issuer := n\<rparr>) = check_SignatureAlgorithm cert"
    "check_PublicKey (cert\<lparr>Certificate.Issuer := n\<rparr>) = check_PublicKey cert"
    "lookup_MaxReputation ranker (cert\<lparr>Certificate.Issuer := n\<rparr>) =
       lookup_MaxReputation ranker cert"
    "check_MissingCN lib (cert\<lparr>Certificate.Issuer := n\<rparr>) = check_MissingCN lib cert"
    by (simp_all add: initial_Violations_def check_ValidPeriod_def check_SignatureAlgorithm_def
        check_PublicKey_def lookup_MaxReputation_def check_MissingCN_def fun_eq_iff Let_def
        split: option.split)
  then show ?thesis
    by (simp add: CalculateCertSummary_def Let_def split: prod.split option.split)
qed

text \<open>
  Claim C10. Two distinguished names that agree on the first \<open>Organization\<close> value, on
  the first \<open>OrganizationalUnit\<close> value (\<open>take 1\<close> of the field: the first value, or
  none) and on the \<open>CommonName\<close> have the same string, whatever their other fields
  hold. So the trust check gives the same answer on two chains that differ in such an
  issuer only, the two summaries of a certificate are equal, and so are the two new
  buckets.
\<close>

theorem names_agreeing_on_three_fields_are_not_told_apart:
  assumes "take 1 (Organization n1) = take 1 (Organization n2)"
    and "take 1 (OrganizationalUnit n1) = take 1 (OrganizationalUnit n2)"
    and "CommonName n1 = CommonName n2"
  shows "DistinguishedNameToString n1 = DistinguishedNameToString n2 \<and>
         containsIssuerInRootList
           (before @ cert\<lparr>Certificate.Issuer := n1\<rparr> # behind) rootCAMap =
         containsIssuerInRootList
           (before @ cert\<lparr>Certificate.Issuer := n2\<rparr> # behind) rootCAMap \<and>
         CalculateCertSummary lib (cert\<lparr>Certificate.Issuer := n1\<rparr>) ts ranker chain rootCAMap =
         CalculateCertSummary lib (cert\<lparr>Certificate.Issuer := n2\<rparr>) ts ranker chain rootCAMap \<and>
         NewIssuerReputation zone n1 ts = NewIssuerReputation zone n2 ts"
proof -
  note eq = DistinguishedNameToString_first [OF assms]
  have 1: "containsIssuerInRootList
           (before @ cert\<lparr>Certificate.Issuer := n1\<rparr> # behind) rootCAMap =
         containsIssuerInRootList
           (before @ cert\<lparr>Certificate.Issuer := n2\<rparr> # behind) rootCAMap"
    by (simp add: containsIssuerInRootList_append eq)
  have 2: "CalculateCertSummary lib (cert\<lparr>Certificate.Issuer := n1\<rparr>) ts ranker chain rootCAMap =
         CalculateCertSummary lib (cert\<lparr>Certificate.Issuer := n2\<rparr>) ts ranker chain rootCAMap"
    by (simp add: CalculateCertSummary_Issuer eq)
  have 3: "NewIssuerReputation zone n1 ts = NewIssuerReputation zone n2 ts"
    by (simp add: NewIssuerReputation_def eq)
  from eq 1 2 3 show ?thesis by simp
qed

theorem names_agreeing_witness:
  "take 1 (Organization Acme_Co) =
     take 1 (Organization (Acme_Co\<lparr>Country := [''US''], Organization := [''Acme Co'', ''Ajax''],
                                    SerialNumber := ''42''\<rparr>)) \<and>
   DistinguishedNameToString Acme_Co = ''O=Acme Co, CN=test.example.com'' \<and>
   DistinguishedNameToString (Acme_Co\<lparr>Country := [''US''], Organization := [''Acme Co'', ''Ajax''],
                                    SerialNumber := ''42''\<rparr>) = ''O=Acme Co, CN=test.example.com'' \<and>
   containsIssuerInRootList [test_cert] [(''O=Acme Co, CN=test.example.com'', True)] \<and>
   containsIssuerInRootList
     [test_cert\<lparr>Certificate.Issuer :=
         Acme_Co\<lparr>Country := [''US''], Organization := [''Acme Co'', ''Ajax''],
                 SerialNumber := ''42''\<rparr>\<rparr>]
     [(''O=Acme Co, CN=test.example.com'', True)]"
proof -
  let ?n2 = "Acme_Co\<lparr>Country := [''US''], Organization := [''Acme Co'', ''Ajax''],
                     SerialNumber := ''42''\<rparr>"
  have 1: "take 1 (Organization Acme_Co) = take 1 (Organization ?n2)"
    by (simp add: Acme_Co_def)
  have 2: "take 1 (OrganizationalUnit Acme_Co) = take 1 (OrganizationalUnit ?n2)"
    by simp
  have 3: "CommonName Acme_Co = CommonName ?n2"
    by simp
  have s: "DistinguishedNameToString Acme_Co = ''O=Acme Co, CN=test.example.com''"
    by (simp add: DistinguishedNameToString_def Acme_Co_def)
  have c: "containsIssuerInRootList [test_cert] [(''O=Acme Co, CN=test.example.com'', True)]"
    by (simp add: test_cert_def s lookup_bool_def)
  have i: "test_cert\<lparr>Certificate.Issuer := Acme_Co\<rparr> = test_cert"
    by (simp add: test_cert_def)
  note t = names_agreeing_on_three_fields_are_not_told_apart [OF 1 2 3, of "[]" test_cert "[]"
        "[(''O=Acme Co, CN=test.example.com'', True)]"]
  from t have a: "DistinguishedNameToString Acme_Co = DistinguishedNameToString ?n2"
    by (rule conjunct1)
  from t have b: "containsIssuerInRootList ([] @ test_cert\<lparr>Certificate.Issuer := Acme_Co\<rparr> # [])
           [(''O=Acme Co, CN=test.example.com'', True)] =
         containsIssuerInRootList ([] @ test_cert\<lparr>Certificate.Issuer := ?n2\<rparr> # [])
           [(''O=Acme Co, CN=test.example.com'', True)]"
    by (rule conjunct2 [THEN conjunct1])
  have b': "containsIssuerInRootList [test_cert\<lparr>Certificate.Issuer := ?n2\<rparr>]
           [(''O=Acme Co, CN=test.example.com'', True)]"
    using b c by (simp only: i append_Nil)
  show ?thesis
    using 1 s a b' c by simp
qed

section \<open>Auxiliary facts on the calendar\<close>

text \<open>From one year to the next: the steps of the three quotients that count leap years.\<close>

lemma div_step:
  fixes y d :: int
  assumes "0 < d"
  shows "y div d - (y - 1) div d = (if y mod d = 0 then 1 else 0)"
proof -
  have d: "d \<noteq> 0" using assms by simp
  show ?thesis
  proof (cases "y mod d = 0")
    case True
    then obtain q where y: "y = d * q" by auto
    have "y - 1 = d * (q - 1) + (d - 1)" by (simp add: y algebra_simps)
    then have "(y - 1) div d = (d * (q - 1) + (d - 1)) div d" by (rule arg_cong)
    also have "\<dots> = (q - 1) + (d - 1) div d" using d by (rule div_mult_self4)
    also have "(d - 1) div d = 0" using assms by (intro div_pos_pos_trivial) simp_all
    finally have "(y - 1) div d = q - 1" by simp
    moreover have "y div d = q" using d by (simp add: y)
    ultimately show ?thesis using True by simp
  next
    case False
    have "0 \<le> y mod d" using assms by simp
    with False have r: "0 < y mod d" by simp
    have r': "y mod d < d" using assms by simp
    have "y - 1 = d * (y div d) + (y mod d - 1)" by simp
    then have "(y - 1) div d = (d * (y div d) + (y mod d - 1)) div d" by (rule arg_cong)
    also have "\<dots> = y div d + (y mod d - 1) div d" using d by (rule div_mult_self4)
    also have "(y mod d - 1) div d = 0" using r r' by (intro div_pos_pos_trivial) simp_all
    finally show ?thesis using False by simp
  qed
qed

lemma mod_400_100: "(y::int) mod 400 = 0 \<Longrightarrow> y mod 100 = 0"
proof -
  assume "y mod 400 = 0"
  then have "400 dvd y" by (simp add: dvd_eq_mod_eq_0)
  moreover have "(100::int) dvd 400" by simp
  ultimately have "100 dvd y" by (rule dvd_trans [rotated])
  then show ?thesis by (simp add: dvd_eq_mod_eq_0)
qed

lemma mod_100_4: "(y::int) mod 100 = 0 \<Longrightarrow> y mod 4 = 0"
proof -
  assume "y mod 100 = 0"
  then have "100 dvd y" by (simp add: dvd_eq_mod_eq_0)
  moreover have "(4::int) dvd 100" by simp
  ultimately have "4 dvd y" by (rule dvd_trans [rotated])
  then show ?thesis by (simp add: dvd_eq_mod_eq_0)
qed

lemma daysBeforeYear_step:
  "daysBeforeYear (y + 1) = daysBeforeYear y + (if isLeap y then 366 else 365)"
proof -
  have 4: "y div 4 - (y - 1) div 4 = (if y mod 4 = 0 then 1 else 0)"
    by (rule div_step) simp
  have 100: "y div 100 - (y - 1) div 100 = (if y mod 100 = 0 then 1 else 0)"
    by (rule div_step) simp
  have 400: "y div 400 - (y - 1) div 400 = (if y mod 400 = 0 then 1 else 0)"
    by (rule div_step) simp
  have "daysBeforeYear (y + 1) - daysBeforeYear y =
      365 + (y div 4 - (y - 1) div 4) - (y div 100 - (y - 1) div 100)
          + (y div 400 - (y - 1) div 400)"
    by (simp add: daysBeforeYear_def)
  then have d: "daysBeforeYear (y + 1) - daysBeforeYear y =
      365 + (if y mod 4 = 0 then 1 else 0) - (if y mod 100 = 0 then 1 else 0)
          + (if y mod 400 = 0 then 1 else 0)"
    by (simp only: 4 100 400)
  consider (a) "y mod 400 = 0" | (b) "y mod 400 \<noteq> 0" "y mod 100 = 0"
    | (c) "y mod 100 \<noteq> 0" "y mod 4 = 0" | (d) "y mod 4 \<noteq> 0"
    by blast
  then show ?thesis
  proof cases
    case a
    with mod_400_100 [of y] mod_100_4 [of y] d show ?thesis
      by (simp add: isLeap_def)
  next
    case b
    with mod_100_4 [of y] d show ?thesis
      by (simp add: isLeap_def)
  next
    case c
    then have "y mod 400 \<noteq> 0" by (auto dest: mod_400_100)
    with c d show ?thesis
      by (simp add: isLeap_def)
  next
    case d': d
    then have "y mod 100 \<noteq> 0" by (auto dest: mod_100_4)
    then have "y mod 400 \<noteq> 0" by (auto dest: mod_400_100)
    note d' = d' \<open>y mod 100 \<noteq> 0\<close> this
    with d' d show ?thesis
      by (simp add: isLeap_def)
  qed
qed

lemma daysBeforeYear_less: "daysBeforeYear y + 365 \<le> daysBeforeYear (y + 1)"
  by (simp add: daysBeforeYear_step)

lemma daysBeforeYear_next: "daysBeforeYear (y + 1) \<le> daysBeforeYear y + 366"
  by (simp add: daysBeforeYear_step)

lemma daysBeforeYear_mono: "y \<le> y' \<Longrightarrow> daysBeforeYear y \<le> daysBeforeYear y'"
proof (induction y' rule: int_ge_induct)
  case base
  show ?case by simp
next
  case (step i)
  with daysBeforeYear_less [of i] show ?case by simp
qed

lemma leap_count_eq:
  fixes x q4 r4 q100 r100 q400 r400 :: int
  assumes "x = 4 * q4 + r4" and "x = 100 * q100 + r100" and "x = 400 * q400 + r400"
  shows "400 * (q4 - q100 + q400) = 97 * x - 100 * r4 + 4 * r100 - r400"
proof -
  have "400 * q4 = 100 * x - 100 * r4" using assms(1) by simp
  moreover have "400 * q100 = 4 * x - 4 * r100" using assms(2) by simp
  moreover have "400 * q400 = x - r400" using assms(3) by simp
  ultimately show ?thesis
    by (simp add: algebra_simps)
qed

lemma daysBeforeYear_bounds:
  "146097 * (y - 1970) - 506 \<le> 400 * daysBeforeYear y"
  "400 * daysBeforeYear y \<le> 146097 * (y - 1970) + 589"
proof -
  let ?x = "y - 1"
  define L where "L = ?x div 4 - ?x div 100 + ?x div 400"
  have "400 * L = 97 * ?x - 100 * (?x mod 4) + 4 * (?x mod 100) - ?x mod 400"
    unfolding L_def by (rule leap_count_eq) simp_all
  moreover have "0 \<le> ?x mod 4" "?x mod 4 < 4" "0 \<le> ?x mod 100" "?x mod 100 < 100"
    "0 \<le> ?x mod 400" "?x mod 400 < 400"
    by simp_all
  ultimately have l: "97 * (y - 1) - 699 \<le> 400 * L" and u: "400 * L \<le> 97 * (y - 1) + 396"
    by simp_all
  have d: "daysBeforeYear y = 365 * (y - 1970) + L - 477"
    by (simp add: daysBeforeYear_def L_def)
  show "146097 * (y - 1970) - 506 \<le> 400 * daysBeforeYear y"
    unfolding d using l by (simp add: algebra_simps)
  show "400 * daysBeforeYear y \<le> 146097 * (y - 1970) + 589"
    unfolding d using u by (simp add: algebra_simps)
qed

text \<open>The year and the month found for a day are the ones the day falls in.\<close>

lemma yearOfDay_correct:
  "daysBeforeYear (yearOfDay n) \<le> n \<and> n < daysBeforeYear (yearOfDay n + 1)"
proof -
  define k where "k = (400 * n) div 146097"
  have "400 * n = 146097 * k + (400 * n) mod 146097"
    by (simp add: k_def)
  moreover have "0 \<le> (400 * n) mod 146097" "(400 * n) mod 146097 < 146097"
    by simp_all
  ultimately have k: "146097 * k \<le> 400 * n" "400 * n < 146097 * k + 146097"
    by simp_all
  have "400 * daysBeforeYear (1970 + k - 1) \<le> 146097 * (1970 + k - 1 - 1970) + 589"
    by (rule daysBeforeYear_bounds)
  with k(1) have "400 * daysBeforeYear (1970 + k - 1) \<le> 400 * n"
    by (simp add: algebra_simps)
  then have lo: "daysBeforeYear (1970 + k - 1) \<le> n"
    by simp
  have "146097 * (1970 + k + 2 - 1970) - 506 \<le> 400 * daysBeforeYear (1970 + k + 2)"
    by (rule daysBeforeYear_bounds)
  with k(2) have "400 * n < 400 * daysBeforeYear (1970 + k + 2)"
    by (simp add: algebra_simps)
  then have hi: "n < daysBeforeYear (1970 + k + 2)"
    by simp
  have eq: "1970 + k - 1 + 1 = 1970 + k" "1970 + k + 1 + 1 = 1970 + k + 2"
    by simp_all
  show ?thesis
    unfolding yearOfDay_def Let_def k_def [symmetric]
    using lo hi by (simp add: eq)
qed

lemma yearOfDay_unique:
  assumes "daysBeforeYear y \<le> n" and "n < daysBeforeYear (y + 1)"
  shows "yearOfDay n = y"
proof (rule ccontr)
  assume ne: "yearOfDay n \<noteq> y"
  note c = yearOfDay_correct [of n]
  show False
  proof (cases "yearOfDay n < y")
    case True
    then have "daysBeforeYear (yearOfDay n + 1) \<le> daysBeforeYear y"
      by (intro daysBeforeYear_mono) simp
    with c assms show False by simp
  next
    case False
    with ne have "daysBeforeYear (y + 1) \<le> daysBeforeYear (yearOfDay n)"
      by (intro daysBeforeYear_mono) simp
    with c assms show False by simp
  qed
qed

lemma daysBefore_values:
  "daysBefore y 1 = 0"
  "daysBefore y 2 = 31"
  "daysBefore y 3 = (if isLeap y then 60 else 59)"
  "daysBefore y 4 = (if isLeap y then 91 else 90)"
  "daysBefore y 5 = (if isLeap y then 121 else 120)"
  "daysBefore y 6 = (if isLeap y then 152 else 151)"
  "daysBefore y 7 = (if isLeap y then 182 else 181)"
  "daysBefore y 8 = (if isLeap y then 213 else 212)"
  "daysBefore y 9 = (if isLeap y then 244 else 243)"
  "daysBefore y 10 = (if isLeap y then 274 else 273)"
  "daysBefore y 11 = (if isLeap y then 305 else 304)"
  "daysBefore y 12 = (if isLeap y then 335 else 334)"
  by (simp_all add: daysBefore_def)

lemma month_cases:
  assumes "1 \<le> m" and "m \<le> 12"
  shows "m = 1 \<or> m = 2 \<or> m = 3 \<or> m = 4 \<or> m = 5 \<or> m = 6 \<or> m = 7 \<or> m = 8 \<or> m = 9
         \<or> m = 10 \<or> m = 11 \<or> m = (12::int)"
  using assms by arith

lemma monthOfYday_range: "1 \<le> monthOfYday y d \<and> monthOfYday y d \<le> 12"
  by (simp add: monthOfYday_def)

lemma monthOfYday_le: "0 \<le> d \<Longrightarrow> daysBefore y (monthOfYday y d) \<le> d"
  by (simp add: monthOfYday_def daysBefore_values(1))

lemma monthOfYday_daysBefore:
  assumes "1 \<le> m" and "m \<le> 12"
  shows "monthOfYday y (daysBefore y m) = m"
  using month_cases [OF assms]
  by (elim disjE) (simp_all add: monthOfYday_def daysBefore_values)

lemma daysBefore_bounds:
  assumes "1 \<le> m" and "m \<le> 12"
  shows "0 \<le> daysBefore y m \<and> daysBefore y m < 365"
  using month_cases [OF assms]
  by (elim disjE) (simp_all add: daysBefore_values)

lemma Date_UTC_month_start:
  assumes "1 \<le> mo" and "mo \<le> 12"
  shows "Date_UTC y mo 1 0 0 0 = (daysBeforeYear y + daysBefore y mo) * 86400"
proof -
  from assms have "(mo - 1) div 12 = 0" "(mo - 1) mod 12 = mo - 1"
    by simp_all
  then show ?thesis
    by (simp add: Date_UTC_def Let_def)
qed

lemma Time_Date_month_start:
  assumes "Time_Date t = (y, mo, d)"
  shows "1 \<le> mo \<and> mo \<le> 12 \<and> Date_UTC y mo 1 0 0 0 \<le> t \<and> (0 \<le> t \<longrightarrow> 0 \<le> Date_UTC y mo 1 0 0 0)"
proof -
  define n where "n = t div 86400"
  from assms have y: "y = yearOfDay n" and mo: "mo = monthOfYday y (n - daysBeforeYear y)"
    by (auto simp add: Time_Date_def Let_def n_def)
  note c = yearOfDay_correct [of n, folded y]
  from c have yd: "0 \<le> n - daysBeforeYear y" by simp
  have r: "1 \<le> mo" "mo \<le> 12"
    using monthOfYday_range [of y "n - daysBeforeYear y"] by (simp_all add: mo)
  have "daysBefore y mo \<le> n - daysBeforeYear y"
    unfolding mo by (rule monthOfYday_le [OF yd])
  then have "(daysBeforeYear y + daysBefore y mo) * 86400 \<le> n * 86400"
    by simp
  also have "n * 86400 \<le> t"
    by (simp add: n_def)
  finally have le: "Date_UTC y mo 1 0 0 0 \<le> t"
    by (simp add: Date_UTC_month_start [OF r])
  have nonneg: "0 \<le> Date_UTC y mo 1 0 0 0" if "0 \<le> t"
  proof -
    from that have n0: "0 \<le> n" by (simp add: n_def)
    have "1970 \<le> y"
    proof (rule ccontr)
      assume "\<not> 1970 \<le> y"
      then have "daysBeforeYear (y + 1) \<le> daysBeforeYear 1970"
        by (intro daysBeforeYear_mono) simp
      also have "daysBeforeYear 1970 = 0"
        by (simp add: daysBeforeYear_def)
      finally show False using c n0 by simp
    qed
    then have "daysBeforeYear 1970 \<le> daysBeforeYear y"
      by (rule daysBeforeYear_mono)
    then have "0 \<le> daysBeforeYear y"
      by (simp add: daysBeforeYear_def)
    with daysBefore_bounds [OF r, of y] show ?thesis
      by (simp add: Date_UTC_month_start [OF r])
  qed
  from r le nonneg show ?thesis by simp
qed

lemma Time_Date_of_month_start:
  assumes "1 \<le> mo" and "mo \<le> 12"
  shows "Time_Date (Date_UTC y mo 1 0 0 0) = (y, mo, 1)"
proof -
  let ?n = "daysBeforeYear y + daysBefore y mo"
  have n: "Date_UTC y mo 1 0 0 0 div 86400 = ?n"
    by (simp add: Date_UTC_month_start [OF assms])
  note b = daysBefore_bounds [OF assms, of y]
  have "yearOfDay ?n = y"
  proof (rule yearOfDay_unique)
    show "daysBeforeYear y \<le> ?n" using b by simp
    show "?n < daysBeforeYear (y + 1)" using b daysBeforeYear_less [of y] by simp
  qed
  then show ?thesis
    by (simp add: Time_Date_def Let_def n monthOfYday_daysBefore [OF assms])
qed

lemma sint_word_of_int_64:
  "- (2 ^ 63) \<le> k \<Longrightarrow> k < 2 ^ 63 \<Longrightarrow> sint (word_of_int k :: uint64) = k"
  by (simp add: sint_sbintrunc' signed_take_bit_int_eq_self)

lemma go_div_nonneg: "0 \<le> a \<Longrightarrow> go_div a 1000 = a div 1000"
  by (cases "a = 0") (simp_all add: go_div_def)

section \<open>The claim on the month bucket\<close>

text \<open>
  Claim C8 says that \<open>TruncateMonth\<close> is idempotent. The function reads the year and the
  month of its argument on the local clock of the process and builds the result in UTC.
  In a zone five hours west of Greenwich, the first call on March 15, 2015, 00:00 UTC
  gives March 1, 2015, 00:00 UTC; on the local clock that instant is February 28, 19:00,
  and the second call gives February 1, 2015, 00:00 UTC.
\<close>

theorem TruncateMonth_twice_west_of_Greenwich:
  "TruncateMonth UTC_minus_5 1426377600000 = 1425168000000 \<and>
   TruncateMonth UTC_minus_5 1425168000000 = 1422748800000"
  by code_simp

text \<open>With UTC as the local zone the two calls agree on this input.\<close>

lemma TruncateMonth_UTC_examples:
  "TruncateMonth UTC 1426377600000 = 1425168000000"
  "TruncateMonth UTC 1425168000000 = 1425168000000"
  by code_simp+

text \<open>
  With UTC as the local zone, and a time stamp below \<open>2^63\<close> (one that \<open>int64\<close> reads
  as it is), the second call returns the value of the first.
\<close>

lemma TruncateMonth_idempotent_UTC:
  assumes "0 \<le> sint t"
  shows "TruncateMonth UTC (TruncateMonth UTC t) = TruncateMonth UTC t"
proof -
  define s where "s = sint t div 1000"
  obtain y mo d where td: "Time_Date s = (y, mo, d)"
    by (cases "Time_Date s") auto
  define m where "m = Date_UTC y mo 1 0 0 0"
  have s0: "0 \<le> s" using assms by (simp add: s_def)
  from Time_Date_month_start [OF td] s0
  have r: "1 \<le> mo" "mo \<le> 12" and m: "0 \<le> m" "m \<le> s"
    by (simp_all add: m_def)
  have first: "TruncateMonth UTC t = word_of_int (m * 1000)"
    using assms td by (simp add: TruncateMonth_def UTC_def go_div_nonneg s_def [symmetric] m_def)
  have "s * 1000 \<le> sint t"
    by (simp add: s_def)
  moreover have "sint t < 2 ^ 63"
    using sint_lt [of t] by simp
  ultimately have "m * 1000 < 2 ^ 63"
    using m by simp
  moreover have "- (2 ^ 63) \<le> m * 1000"
    using m by simp
  ultimately have "sint (word_of_int (m * 1000) :: uint64) = m * 1000"
    by (rule sint_word_of_int_64 [rotated])
  then have "go_div (sint (word_of_int (m * 1000) :: uint64)) 1000 = m"
    using m by (simp add: go_div_nonneg)
  then have "TruncateMonth UTC (word_of_int (m * 1000)) = word_of_int (m * 1000)"
    using Time_Date_of_month_start [OF r, of y]
    by (simp add: TruncateMonth_def UTC_def m_def [symmetric])
  then show ?thesis
    by (simp only: first)
qed

end
